theory Spec2Isabelle
  imports Main "HOL-Library.AList"
begin

section \<open>Jira ticket creation from Visual TOM alarms: data model\<close>

text \<open>
  The development embeds \<^verbatim>\<open>src/Jira_CreateTicket.py\<close>. The remote Jira instance, the
  file system and the clock are an explicit \<open>world\<close> value that answers every request;
  each Python function becomes a HOL function returning its result together with the list
  of effects (HTTP requests, file opens, printed lines) in the order the code performs
  them. The process exit status is a number: 0 when \<^verbatim>\<open>main\<close> returns, 1 for
  \<^verbatim>\<open>sys.exit(1)\<close>.

  The method \<^verbatim>\<open>create_subtask\<close> is never called by \<^verbatim>\<open>main\<close> and is left out, and
  so is the setup wizard of \<^verbatim>\<open>setup_config.py\<close>, which is not part of a run.

  Assumptions on the environment, all about the shape of well-formed Jira answers: a
  successful answer is parsed into the typed values below (every listed issue type and
  priority has a string name and a string id, every found issue has a key, a status, when
  present, is an object whose name, when present, is a string, and the answer to a
  successful issue creation is an object with a key). A string is a list of characters
  with code points below 256; text with other characters is outside the model. JSON
  numbers are integers.
\<close>

subsection \<open>JSON values and Python truthiness\<close>

datatype json =
    JNull
  | JBool bool
  | JNum int
  | JStr string
  | JArr "json list"
  | JObj "(string \<times> json) list"

text \<open>Python's truth value of a decoded JSON value (\<^verbatim>\<open>if v:\<close>).\<close>

fun truthy :: "json \<Rightarrow> bool" where
  "truthy JNull = False"
| "truthy (JBool b) = b"
| "truthy (JNum n) = (n \<noteq> 0)"
| "truthy (JStr s) = (s \<noteq> [])"
| "truthy (JArr xs) = (xs \<noteq> [])"
| "truthy (JObj kvs) = (kvs \<noteq> [])"

text \<open>
  An optional string under Python's truth test: \<^verbatim>\<open>None\<close> and the empty string are
  false, and \<open>nonempty\<close> returns the string exactly when the test succeeds.
\<close>

fun nonempty :: "string option \<Rightarrow> string option" where
  "nonempty None = None"
| "nonempty (Some s) = (if s = [] then None else Some s)"

text \<open>
  \<^verbatim>\<open>str.lower()\<close>. A character is a code point below 256 (ASCII and Latin-1). Among
  these, Python lowers exactly the letters A-Z and the code points 0xC0-0xDE other than
  the multiplication sign 0xD7, each to the code point 32 above it, one character at a
  time; every other character stays.
\<close>

definition upper_letters :: string where
  "upper_letters =
     ''ABCDEFGHIJKLMNOPQRSTUVWXYZ''
     @ [CHR 0xC0, CHR 0xC1, CHR 0xC2, CHR 0xC3, CHR 0xC4, CHR 0xC5, CHR 0xC6, CHR 0xC7,
        CHR 0xC8, CHR 0xC9, CHR 0xCA, CHR 0xCB, CHR 0xCC, CHR 0xCD, CHR 0xCE, CHR 0xCF,
        CHR 0xD0, CHR 0xD1, CHR 0xD2, CHR 0xD3, CHR 0xD4, CHR 0xD5, CHR 0xD6, CHR 0xD8,
        CHR 0xD9, CHR 0xDA, CHR 0xDB, CHR 0xDC, CHR 0xDD, CHR 0xDE]"

definition lower_letters :: string where
  "lower_letters =
     ''abcdefghijklmnopqrstuvwxyz''
     @ [CHR 0xE0, CHR 0xE1, CHR 0xE2, CHR 0xE3, CHR 0xE4, CHR 0xE5, CHR 0xE6, CHR 0xE7,
        CHR 0xE8, CHR 0xE9, CHR 0xEA, CHR 0xEB, CHR 0xEC, CHR 0xED, CHR 0xEE, CHR 0xEF,
        CHR 0xF0, CHR 0xF1, CHR 0xF2, CHR 0xF3, CHR 0xF4, CHR 0xF5, CHR 0xF6, CHR 0xF8,
        CHR 0xF9, CHR 0xFA, CHR 0xFB, CHR 0xFC, CHR 0xFD, CHR 0xFE]"

definition lower_char :: "char \<Rightarrow> char" where
  "lower_char c = (case map_of (zip upper_letters lower_letters) c of None \<Rightarrow> c | Some l \<Rightarrow> l)"

definition lower :: "string \<Rightarrow> string" where
  "lower s = map lower_char s"

text \<open>
  A Python dict is an association list in insertion order; \<^verbatim>\<open>d[k] = v\<close> is
  \<^const>\<open>AList.update\<close> (overwrite in place, or append), \<^verbatim>\<open>d.get(k)\<close> is
  \<^const>\<open>map_of\<close>, and \<^verbatim>\<open>d.update(e)\<close> stores the items of \<open>e\<close> one by one.
\<close>

definition dict_update :: "(string \<times> json) list \<Rightarrow> (string \<times> json) list \<Rightarrow> (string \<times> json) list" where
  "dict_update d e = fold (\<lambda>(k, v). AList.update k v) e d"

subsection \<open>Configuration, arguments, remote answers\<close>

text \<open>The names imported from \<^verbatim>\<open>config.py\<close> that the runtime path reads.\<close>

record config =
  default_issue_type :: string
  default_priority :: string
  custom_field_mappings :: "(string \<times> string) list"
  priority_mapping :: "(string \<times> string) list"
  issue_type_mapping :: "(string \<times> string) list"
  jsm_default_values :: "(string \<times> json) list"

text \<open>
  The parsed command line. An option that was not given is \<open>None\<close>; \<open>issueType\<close> and
  \<open>priority\<close> then take the configured defaults.
\<close>

record args =
  projectKey :: string
  summary :: string
  description :: string
  objectName :: string
  issueType :: "string option"
  priority :: "string option"
  assignee :: "string option"
  outAttachmentName :: "string option"
  outAttachmentFile :: "string option"
  errorAttachmentName :: "string option"
  errorAttachmentFile :: "string option"
  severity :: "string option"
  alarmType :: "string option"
  debug :: bool

text \<open>
  A \<^verbatim>\<open>requests.exceptions.RequestException\<close>: its text, and the response it carries
  if any (the printed form of the response's JSON body when it decodes, and its raw text).
\<close>

datatype error_response = ErrorResponse (body_json: "string option") (body_text: string)

datatype request_exception = RequestException (exc_str: string) (response: "error_response option")

text \<open>An issue of the search answer: its key, its status name and its other fields.\<close>

record issue =
  issue_key :: string
  status_name :: "string option"
  issue_fields :: "(string \<times> json) list"

text \<open>The project answer: its name and its issue types, each a (name, id) pair.\<close>

record project_data =
  project_name :: "string option"
  issueTypes :: "(string \<times> string) list"

datatype http_call =
    GetProject string
  | GetIssueTypes
  | GetPriorities
  | PostSearch json
  | PostIssue json
  | PostIssueLink json
  | PostAttachment string string string
  | PostComment string json

datatype event = Call http_call | OpenFile string | Print string

record world =
  project_get :: "string \<Rightarrow> request_exception + project_data"
  issuetype_get :: "request_exception + (string \<times> string) list"
  priority_get :: "request_exception + (string \<times> string) list"
  search_post :: "json \<Rightarrow> request_exception + issue list"
  issue_post :: "json \<Rightarrow> request_exception + string"
  issuelink_post :: "json \<Rightarrow> nat option"
  attachment_post :: "string \<Rightarrow> string \<Rightarrow> request_exception option"
  comment_post :: "string \<Rightarrow> json \<Rightarrow> request_exception option"
  path_exists :: "string \<Rightarrow> bool"
  file_open :: "string \<Rightarrow> string option"
  now :: string

definition calls_of :: "event list \<Rightarrow> http_call list" where
  "calls_of tr = concat (map (\<lambda>e. case e of Call c \<Rightarrow> [c] | _ \<Rightarrow> []) tr)"

definition sq :: string where
  "sq = [CHR 0x27]"

definition nl :: string where
  "nl = [CHR 0x0A]"

text \<open>
  The lines printed after \<^verbatim>\<open>Error ...: {e}\<close> in the exception handlers: the decoded
  error body when there is one; \<open>error_detail_or_text\<close> falls back to the raw text
  (\<^verbatim>\<open>create_issue\<close>, \<^verbatim>\<open>add_attachment\<close>), \<open>error_detail\<close> prints nothing then
  (\<^verbatim>\<open>search_existing_issue\<close>).
\<close>

fun error_detail :: "request_exception \<Rightarrow> event list" where
  "error_detail (RequestException s (Some (ErrorResponse (Some d) t))) = [Print (''Error details: '' @ d)]"
| "error_detail _ = []"

fun error_detail_or_text :: "request_exception \<Rightarrow> event list" where
  "error_detail_or_text (RequestException s None) = []"
| "error_detail_or_text (RequestException s (Some (ErrorResponse (Some d) t))) = [Print (''Error details: '' @ d)]"
| "error_detail_or_text (RequestException s (Some (ErrorResponse None t))) = [Print (''Response content: '' @ t)]"

section \<open>The remote client\<close>

subsection \<open>Issue type and priority lookup\<close>

text \<open>
  The loop \<^verbatim>\<open>for x in xs: if x['name'].lower() == name.lower(): return x['id']\<close>,
  which occurs three times in the source.
\<close>

fun lookup_name :: "string \<Rightarrow> (string \<times> string) list \<Rightarrow> string option" where
  "lookup_name n [] = None"
| "lookup_name n ((nm, i) # rest) =
     (if lower nm = lower n then Some i else lookup_name n rest)"

definition get_issue_type_id :: "world \<Rightarrow> string \<Rightarrow> string \<Rightarrow> string option \<times> event list" where
  "get_issue_type_id w project_key issue_type_name =
     (case project_get w project_key of
        Inl e \<Rightarrow>
          (None, [Call (GetProject project_key), Print (''Error getting issue type ID: '' @ exc_str e)])
      | Inr pd \<Rightarrow>
          (case lookup_name issue_type_name (issueTypes pd) of
             Some i \<Rightarrow> (Some i, [Call (GetProject project_key)])
           | None \<Rightarrow>
               (case issuetype_get w of
                  Inl e \<Rightarrow>
                    (None, [Call (GetProject project_key), Call GetIssueTypes,
                            Print (''Error getting issue type ID: '' @ exc_str e)])
                | Inr its \<Rightarrow>
                    (lookup_name issue_type_name its,
                     [Call (GetProject project_key), Call GetIssueTypes]))))"

definition get_priority_id :: "world \<Rightarrow> string \<Rightarrow> string option \<times> event list" where
  "get_priority_id w priority_name =
     (case priority_get w of
        Inl e \<Rightarrow> (None, [Call GetPriorities, Print (''Error getting priority ID: '' @ exc_str e)])
      | Inr ps \<Rightarrow> (lookup_name priority_name ps, [Call GetPriorities]))"

subsection \<open>Search for an existing open issue\<close>

text \<open>
  The in-memory filter loop of \<^verbatim>\<open>search_existing_issue\<close>: a closed issue is skipped
  (\<^verbatim>\<open>continue\<close>), the first remaining issue whose custom field is true and equal to the
  object name is returned.
\<close>

fun scan_issues :: "string \<Rightarrow> string \<Rightarrow> issue list \<Rightarrow> issue option" where
  "scan_issues vtom_field_id object_name [] = None"
| "scan_issues vtom_field_id object_name (i # rest) =
     (let status = (case status_name i of None \<Rightarrow> [] | Some s \<Rightarrow> s) in
      if lower status \<in> set [''done'', ''closed'', ''resolved'']
      then scan_issues vtom_field_id object_name rest
      else let vtom_value = map_of (issue_fields i) vtom_field_id in
        if (case vtom_value of None \<Rightarrow> False | Some v \<Rightarrow> truthy v \<and> v = JStr object_name)
        then Some i
        else scan_issues vtom_field_id object_name rest)"

definition search_body :: "string \<Rightarrow> string \<Rightarrow> json" where
  "search_body vtom_field_id project_key =
     JObj [(''jql'', JStr (''project = '' @ project_key @ '' ORDER BY created DESC'')),
           (''maxResults'', JNum 100),
           (''fields'', JArr [JStr ''summary'', JStr ''status'', JStr vtom_field_id])]"

definition search_existing_issue :: "config \<Rightarrow> world \<Rightarrow> string \<Rightarrow> string \<Rightarrow> issue option \<times> event list" where
  "search_existing_issue cfg w object_name project_key =
     (case nonempty (map_of (custom_field_mappings cfg) ''vtom_object_name'') of
        None \<Rightarrow>
          (None, [Print ''Warning: vtom_object_name custom field not configured, skipping existing issue search''])
      | Some vtom_field_id \<Rightarrow>
          (let start = [Print (''Searching for existing issues with VTOM object: '' @ object_name),
                        Call (PostSearch (search_body vtom_field_id project_key))]
           in case search_post w (search_body vtom_field_id project_key) of
                Inl e \<Rightarrow>
                  (None, start @ [Print (''Error searching for existing issues: '' @ exc_str e)] @ error_detail e)
              | Inr issues \<Rightarrow>
                  (case scan_issues vtom_field_id object_name issues of
                     Some i \<Rightarrow>
                       (Some i, start @ [Print (''Found existing issue: '' @ issue_key i @ '' with matching VTOM object name'')])
                   | None \<Rightarrow>
                       (None, start @ [Print ''No existing open issue found for this VTOM object'']))))"

subsection \<open>Issue creation\<close>

text \<open>The Atlassian document wrapping a plain text (description and comment bodies).\<close>

definition adf_doc :: "string \<Rightarrow> json" where
  "adf_doc t =
     JObj [(''type'', JStr ''doc''), (''version'', JNum 1),
           (''content'', JArr [JObj [(''type'', JStr ''paragraph''),
              (''content'', JArr [JObj [(''type'', JStr ''text''), (''text'', JStr t)]])]])]"

text \<open>
  The request body \<^verbatim>\<open>issue_data\<close> of \<^verbatim>\<open>create_issue\<close>: the standard fields, the
  assignee when one is given, then the custom fields stored over them with
  \<^verbatim>\<open>dict.update\<close>.
\<close>

definition issue_payload ::
  "string \<Rightarrow> string \<Rightarrow> string \<Rightarrow> string \<Rightarrow> string \<Rightarrow> string option \<Rightarrow> (string \<times> json) list \<Rightarrow> json" where
  "issue_payload project_key issue_type_id summary_text description_text priority_id assignee_email custom_fields =
     (let fields0 = [(''project'', JObj [(''key'', JStr project_key)]),
                     (''issuetype'', JObj [(''id'', JStr issue_type_id)]),
                     (''summary'', JStr summary_text),
                     (''description'', adf_doc description_text),
                     (''priority'', JObj [(''id'', JStr priority_id)])];
          fields1 = (case nonempty assignee_email of
                       Some a \<Rightarrow> AList.update ''assignee'' (JObj [(''emailAddress'', JStr a)]) fields0
                     | None \<Rightarrow> fields0);
          fields2 = (if custom_fields \<noteq> [] then dict_update fields1 custom_fields else fields1)
      in JObj [(''fields'', JObj fields2)])"

text \<open>
  \<^verbatim>\<open>create_issue\<close> returns the key of the created issue, or \<open>None\<close>. Both lookups
  come first; an id that is \<open>None\<close> or empty ends the function before any request to
  create is made.
\<close>

definition create_issue ::
  "world \<Rightarrow> string \<Rightarrow> string \<Rightarrow> string \<Rightarrow> string \<Rightarrow> string \<Rightarrow> string option \<Rightarrow> (string \<times> json) list
     \<Rightarrow> string option \<times> event list" where
  "create_issue w project_key issue_type_name summary_text description_text priority_name assignee_email custom_fields =
     (let (issue_type_id, t1) = get_issue_type_id w project_key issue_type_name in
      case nonempty issue_type_id of
        None \<Rightarrow>
          (None, t1 @ [Print (''Error: Issue type '' @ sq @ issue_type_name @ sq @
                              '' not found in project '' @ sq @ project_key @ sq)])
      | Some tid \<Rightarrow>
          (let (priority_id, t2) = get_priority_id w priority_name in
           case nonempty priority_id of
             None \<Rightarrow>
               (None, t1 @ t2 @ [Print (''Error: Priority '' @ sq @ priority_name @ sq @ '' not found'')])
           | Some pid \<Rightarrow>
               (let issue_data = issue_payload project_key tid summary_text description_text pid
                                   assignee_email custom_fields
                in case issue_post w issue_data of
                     Inr new_key \<Rightarrow> (Some new_key, t1 @ t2 @ [Call (PostIssue issue_data)])
                   | Inl e \<Rightarrow>
                       (None, t1 @ t2 @ [Call (PostIssue issue_data),
                                         Print (''Error creating issue: '' @ exc_str e)]
                              @ error_detail_or_text e))))"

subsection \<open>Attachments and comments\<close>

text \<open>
  \<^verbatim>\<open>add_attachment\<close>: a path that does not exist gives a warning and \<open>False\<close>;
  otherwise the file is opened and, when that succeeds, uploaded.
\<close>

definition add_attachment :: "world \<Rightarrow> string \<Rightarrow> string \<Rightarrow> string \<Rightarrow> bool \<times> event list" where
  "add_attachment w key file_path filename =
     (if \<not> path_exists w file_path
      then (False, [Print (''Warning: Attachment file '' @ file_path @ '' does not exist'')])
      else case file_open w file_path of
             Some msg \<Rightarrow>
               (False, [OpenFile file_path,
                        Print (''Error reading file '' @ file_path @ '': '' @ msg)])
           | None \<Rightarrow>
               (case attachment_post w key filename of
                  None \<Rightarrow> (True, [OpenFile file_path, Call (PostAttachment key file_path filename)])
                | Some e \<Rightarrow>
                    (False, [OpenFile file_path, Call (PostAttachment key file_path filename),
                             Print (''Error adding attachment: '' @ exc_str e)]
                            @ error_detail_or_text e)))"

definition add_comment :: "world \<Rightarrow> string \<Rightarrow> string \<Rightarrow> bool \<times> event list" where
  "add_comment w key comment =
     (let comment_data = JObj [(''body'', adf_doc comment)] in
      case comment_post w key comment_data of
        None \<Rightarrow> (True, [Call (PostComment key comment_data)])
      | Some e \<Rightarrow>
          (False, [Call (PostComment key comment_data), Print (''Error adding comment: '' @ exc_str e)]))"

section \<open>The main function\<close>

text \<open>Debug mode (lines 396-424): the two listings are printed and \<^verbatim>\<open>main\<close> returns.\<close>

definition debug_mode :: "world \<Rightarrow> args \<Rightarrow> event list" where
  "debug_mode w a =
     [Print ''=== DEBUG MODE ==='', Print (''Project: '' @ projectKey a),
      Call (GetProject (projectKey a))]
     @ (case project_get w (projectKey a) of
          Inl e \<Rightarrow> [Print (''Error getting project info: '' @ exc_str e)]
        | Inr pd \<Rightarrow>
            [Print (''Project name: '' @ (case project_name pd of None \<Rightarrow> ''Unknown'' | Some n \<Rightarrow> n)),
             Print ''Available issue types:'']
            @ map (\<lambda>(nm, i). Print (''  - '' @ nm @ '' (ID: '' @ i @ '')'')) (issueTypes pd))
     @ [Call GetPriorities]
     @ (case priority_get w of
          Inl e \<Rightarrow> [Print (''Error getting priorities: '' @ exc_str e)]
        | Inr ps \<Rightarrow>
            Print ''Available priorities:''
            # map (\<lambda>(nm, i). Print (''  - '' @ nm @ '' (ID: '' @ i @ '')'')) ps)
     @ [Print ''=== END DEBUG ==='']"

text \<open>Priority and issue type after the optional mappings (lines 427-433).\<close>

definition mapped_priority :: "config \<Rightarrow> args \<Rightarrow> string" where
  "mapped_priority cfg a =
     (let p = (case priority a of None \<Rightarrow> default_priority cfg | Some x \<Rightarrow> x) in
      case nonempty (severity a) of
        None \<Rightarrow> p
      | Some s \<Rightarrow> (case map_of (priority_mapping cfg) (lower s) of None \<Rightarrow> p | Some m \<Rightarrow> m))"

definition mapped_issue_type :: "config \<Rightarrow> args \<Rightarrow> string" where
  "mapped_issue_type cfg a =
     (let t = (case issueType a of None \<Rightarrow> default_issue_type cfg | Some x \<Rightarrow> x) in
      case nonempty (alarmType a) of
        None \<Rightarrow> t
      | Some s \<Rightarrow> (case map_of (issue_type_mapping cfg) (lower s) of None \<Rightarrow> t | Some m \<Rightarrow> m))"

text \<open>
  The dict \<^verbatim>\<open>custom_fields\<close> (lines 436-454): the object name under the configured
  field id, then every mapped field that has a true JSM default value, then the object
  name again under the id of \<^verbatim>\<open>vtom_job_name\<close>.
\<close>

definition prepare_custom_fields :: "config \<Rightarrow> string \<Rightarrow> (string \<times> json) list" where
  "prepare_custom_fields cfg object_name =
     (if custom_field_mappings cfg = [] then []
      else
        let cf1 = (case nonempty (map_of (custom_field_mappings cfg) ''vtom_object_name'') of
                     None \<Rightarrow> []
                   | Some vtom_field_id \<Rightarrow> AList.update vtom_field_id (JStr object_name) []);
            cf2 = (if jsm_default_values cfg = [] then cf1
                   else fold (\<lambda>(field_name, field_id) cf.
                          case map_of (jsm_default_values cfg) field_name of
                            None \<Rightarrow> cf
                          | Some default_value \<Rightarrow>
                              if truthy default_value then AList.update field_id default_value cf else cf)
                        (custom_field_mappings cfg) cf1)
        in fold (\<lambda>(field_name, field_id) cf.
                   if field_name = ''vtom_job_name''
                   then AList.update field_id (JStr object_name) cf else cf)
                (custom_field_mappings cfg) cf2)"

text \<open>The link request between the new issue and the existing one (lines 481-495).\<close>

definition link_data :: "string \<Rightarrow> string \<Rightarrow> json" where
  "link_data inward outward =
     JObj [(''type'', JObj [(''name'', JStr ''Relates'')]),
           (''inwardIssue'', JObj [(''key'', JStr inward)]),
           (''outwardIssue'', JObj [(''key'', JStr outward)])]"

definition link_issues :: "world \<Rightarrow> string \<Rightarrow> string \<Rightarrow> event list" where
  "link_issues w new_key existing_key =
     Call (PostIssueLink (link_data new_key existing_key))
     # (case issuelink_post w (link_data new_key existing_key) of
          None \<Rightarrow> [Print ''Warning: Could not create link between issues'']
        | Some status_code \<Rightarrow>
            if status_code = 201 then [Print (''Linked '' @ new_key @ '' to '' @ existing_key)] else [])"

text \<open>One of the two attachment blocks (lines 519-525).\<close>

definition attach_if_provided :: "world \<Rightarrow> string \<Rightarrow> string option \<Rightarrow> string option \<Rightarrow> string \<Rightarrow> event list" where
  "attach_if_provided w key attachment_file attachment_name label =
     (case nonempty attachment_file of
        None \<Rightarrow> []
      | Some f \<Rightarrow>
          (case nonempty attachment_name of
             None \<Rightarrow> []
           | Some n \<Rightarrow>
               (let (ok, t) = add_attachment w key f n in
                t @ (if ok then [Print (label @ n)] else []))))"

text \<open>Attachments and the timestamp comment (lines 518-531).\<close>

definition post_process :: "world \<Rightarrow> args \<Rightarrow> string \<Rightarrow> event list" where
  "post_process w a key =
     attach_if_provided w key (outAttachmentFile a) (outAttachmentName a) ''Added output log attachment: ''
     @ attach_if_provided w key (errorAttachmentFile a) (errorAttachmentName a) ''Added error log attachment: ''
     @ (let (ok, t) = add_comment w key (''VTOM alarm processed at '' @ now w) in
        t @ (if ok then [Print ''Added timestamp comment''] else []))"

text \<open>The summary and the description of a ticket related to an existing one (lines 464-465).\<close>

definition linked_summary :: "args \<Rightarrow> string \<Rightarrow> string" where
  "linked_summary a existing_key = summary a @ '' (Related to '' @ existing_key @ '')''"

definition linked_description :: "args \<Rightarrow> string \<Rightarrow> string" where
  "linked_description a existing_key =
     ''This issue is related to existing issue '' @ existing_key @ nl @ nl
     @ ''VTOM Object: '' @ objectName a @ nl @ nl @ description a"

text \<open>\<^verbatim>\<open>main\<close> after argument parsing: the exit status and the effects of the run.\<close>

definition main :: "config \<Rightarrow> world \<Rightarrow> args \<Rightarrow> nat \<times> event list" where
  "main cfg w a =
     (if debug a then (0, debug_mode w a)
      else
        let priority_name = mapped_priority cfg a;
            issue_type_name = mapped_issue_type cfg a;
            custom_fields = prepare_custom_fields cfg (objectName a);
            (existing_issue, t_search) = search_existing_issue cfg w (objectName a) (projectKey a)
        in case existing_issue of
             Some ex \<Rightarrow>
               (let (result, t_create) =
                      create_issue w (projectKey a) issue_type_name
                        (linked_summary a (issue_key ex)) (linked_description a (issue_key ex))
                        priority_name (assignee a) custom_fields;
                    t0 = t_search @ [Print (''Found existing issue: '' @ issue_key ex)] @ t_create
                in case result of
                     Some new_key \<Rightarrow>
                       (0, t0 @ [Print (''Created linked issue: '' @ new_key)]
                           @ link_issues w new_key (issue_key ex)
                           @ post_process w a new_key)
                   | None \<Rightarrow> (1, t0 @ [Print ''Failed to create linked issue'']))
           | None \<Rightarrow>
               (let (result, t_create) =
                      create_issue w (projectKey a) issue_type_name (summary a) (description a)
                        priority_name (assignee a) custom_fields
                in case result of
                     Some new_key \<Rightarrow>
                       (0, t_search @ t_create @ [Print (''Created new issue: '' @ new_key)]
                           @ post_process w a new_key)
                   | None \<Rightarrow> (1, t_search @ t_create @ [Print ''Failed to create issue''])))"

section \<open>Notions used to state the properties\<close>

text \<open>Two strings are equal up to case when their lower-case forms agree.\<close>

definition ci_equal :: "string \<Rightarrow> string \<Rightarrow> bool" where
  "ci_equal s t = (lower s = lower t)"

text \<open>The status name of a found issue, with the code's default for a missing one.\<close>

definition status_of :: "issue \<Rightarrow> string" where
  "status_of i = (case status_name i of None \<Rightarrow> [] | Some s \<Rightarrow> s)"

text \<open>A ticket of the closed family: its status is Done, Closed or Resolved in any case.\<close>

definition status_closed :: "issue \<Rightarrow> bool" where
  "status_closed i =
     (ci_equal (status_of i) ''done'' \<or> ci_equal (status_of i) ''closed'' \<or> ci_equal (status_of i) ''resolved'')"

text \<open>The configured id of the object-name custom field, if there is a usable one.\<close>

definition object_field_id :: "config \<Rightarrow> string option" where
  "object_field_id cfg = nonempty (map_of (custom_field_mappings cfg) ''vtom_object_name'')"

text \<open>The value a found issue holds in the object-name custom field.\<close>

definition vtom_value :: "config \<Rightarrow> issue \<Rightarrow> json option" where
  "vtom_value cfg i =
     (case object_field_id cfg of None \<Rightarrow> None | Some fid \<Rightarrow> map_of (issue_fields i) fid)"

text \<open>
  A surviving candidate of the filter: not of the closed family, and holding in field
  \<open>fid\<close> a true value equal to the object name.
\<close>

definition survives :: "string \<Rightarrow> string \<Rightarrow> issue \<Rightarrow> bool" where
  "survives fid object_name i =
     (\<not> status_closed i \<and> map_of (issue_fields i) fid = Some (JStr object_name) \<and> object_name \<noteq> [])"

text \<open>The id of the first entry of a list whose name equals \<open>n\<close> up to case.\<close>

definition first_match :: "string \<Rightarrow> (string \<times> string) list \<Rightarrow> string option" where
  "first_match n xs =
     (case filter (\<lambda>e. ci_equal (fst e) n) xs of [] \<Rightarrow> None | e # later \<Rightarrow> Some (snd e))"

text \<open>The files a run opened for upload, in order.\<close>

definition opened_files :: "event list \<Rightarrow> string list" where
  "opened_files tr = concat (map (\<lambda>e. case e of OpenFile p \<Rightarrow> [p] | _ \<Rightarrow> []) tr)"

text \<open>The (path, file name) pairs of the upload requests of a run, in order.\<close>

definition uploads :: "event list \<Rightarrow> (string \<times> string) list" where
  "uploads tr =
     concat (map (\<lambda>c. case c of PostAttachment k p f \<Rightarrow> [(p, f)] | _ \<Rightarrow> []) (calls_of tr))"

text \<open>
  An attachment block has something to attach: both the path and the name are given and
  not empty, and the path exists.
\<close>

definition attachable :: "world \<Rightarrow> string option \<Rightarrow> string option \<Rightarrow> (string \<times> string) list" where
  "attachable w attachment_file attachment_name =
     (case nonempty attachment_file of
        None \<Rightarrow> []
      | Some p \<Rightarrow>
          (case nonempty attachment_name of
             None \<Rightarrow> []
           | Some n \<Rightarrow> if path_exists w p then [(p, n)] else []))"

text \<open>The entries of the \<^verbatim>\<open>fields\<close> object of a creation request.\<close>

fun payload_fields :: "json \<Rightarrow> (string \<times> json) list" where
  "payload_fields (JObj kvs) =
     (case map_of kvs ''fields'' of Some (JObj fs) \<Rightarrow> fs | _ \<Rightarrow> [])"
| "payload_fields _ = []"

text \<open>The creation requests of a run, in order.\<close>

definition created :: "event list \<Rightarrow> json list" where
  "created tr = concat (map (\<lambda>c. case c of PostIssue b \<Rightarrow> [b] | _ \<Rightarrow> []) (calls_of tr))"

text \<open>The link requests of a run, in order.\<close>

definition linked :: "event list \<Rightarrow> json list" where
  "linked tr = concat (map (\<lambda>c. case c of PostIssueLink b \<Rightarrow> [b] | _ \<Rightarrow> []) (calls_of tr))"

text \<open>
  The ids the two lookups of \<^verbatim>\<open>create_issue\<close> resolve to, when both find a non-empty
  id; \<open>None\<close> when the issue type or, after it, the priority does not resolve.
\<close>

definition resolved_ids :: "world \<Rightarrow> string \<Rightarrow> string \<Rightarrow> string \<Rightarrow> (string \<times> string) option" where
  "resolved_ids w project_key issue_type_name priority_name =
     (case nonempty (fst (get_issue_type_id w project_key issue_type_name)) of
        None \<Rightarrow> None
      | Some tid \<Rightarrow>
          (case nonempty (fst (get_priority_id w priority_name)) of
             None \<Rightarrow> None
           | Some pid \<Rightarrow> Some (tid, pid)))"

section \<open>A concrete configuration, remote state and alarm\<close>

text \<open>The configuration of \<^verbatim>\<open>config.template.py\<close>.\<close>

definition cfg_demo :: config where
  "cfg_demo = \<lparr>
     default_issue_type = ''[System] Incident'',
     default_priority = ''High'',
     custom_field_mappings =
       [(''vtom_object_name'', ''customfield_10055''), (''request_type'', ''customfield_10010''),
        (''affected_services'', ''customfield_10043''), (''organizations'', ''customfield_10002'')],
     priority_mapping =
       [(''critical'', ''Highest''), (''high'', ''High''), (''medium'', ''Medium''),
        (''low'', ''Low''), (''info'', ''Lowest'')],
     issue_type_mapping =
       [(''job_failure'', ''Incident''), (''system_alert'', ''Incident''),
        (''performance'', ''Task''), (''maintenance'', ''Task'')],
     jsm_default_values =
       [(''request_type'', JStr ''14''), (''affected_services'', JArr []), (''organizations'', JArr [])] \<rparr>"

text \<open>
  A search page, newest first: a resolved ticket of the object, an open ticket without
  object name, two open tickets of the object, and an open ticket of another object.
\<close>

definition page_demo :: "issue list" where
  "page_demo =
     [\<lparr> issue_key = ''PROJ-44'', status_name = Some ''Resolved'',
        issue_fields = [(''customfield_10055'', JStr ''ETL_NIGHTLY'')] \<rparr>,
      \<lparr> issue_key = ''PROJ-43'', status_name = Some ''Open'',
        issue_fields = [(''customfield_10055'', JNull)] \<rparr>,
      \<lparr> issue_key = ''PROJ-42'', status_name = Some ''Open'',
        issue_fields = [(''customfield_10055'', JStr ''ETL_NIGHTLY'')] \<rparr>,
      \<lparr> issue_key = ''PROJ-40'', status_name = Some ''In Progress'',
        issue_fields = [(''customfield_10055'', JStr ''ETL_NIGHTLY'')] \<rparr>,
      \<lparr> issue_key = ''PROJ-39'', status_name = Some ''Open'',
        issue_fields = [(''customfield_10055'', JStr ''Job_A'')] \<rparr>]"

definition world_demo :: world where
  "world_demo = \<lparr>
     project_get = (\<lambda>k. Inr \<lparr> project_name = Some ''Operations'',
                              issueTypes = [(''[System] Incident'', ''10001''), (''Task'', ''10002'')] \<rparr>),
     issuetype_get = Inr [(''Bug'', ''10100''), (''incident'', ''10101''), (''Incident'', ''10102'')],
     priority_get = Inr [(''Highest'', ''1''), (''High'', ''2''), (''Medium'', ''3''),
                         (''Low'', ''4''), (''Lowest'', ''5'')],
     search_post = (\<lambda>b. Inr page_demo),
     issue_post = (\<lambda>b. Inr ''PROJ-45''),
     issuelink_post = (\<lambda>b. Some 201),
     attachment_post = (\<lambda>k f. None),
     comment_post = (\<lambda>k b. None),
     path_exists = (\<lambda>p. p = ''/tmp/out.log''),
     file_open = (\<lambda>p. None),
     now = ''2026-01-01 00:00:00'' \<rparr>"

definition args_demo :: args where
  "args_demo = \<lparr>
     projectKey = ''PROJ'', summary = ''Job failed'', description = ''Exit code 2'',
     objectName = ''ETL_NIGHTLY'', issueType = None, priority = None, assignee = None,
     outAttachmentName = Some ''out.log'', outAttachmentFile = Some ''/tmp/out.log'',
     errorAttachmentName = Some ''err.log'', errorAttachmentFile = Some ''/tmp/missing.log'',
     severity = Some ''Critical'', alarmType = Some ''job_failure'', debug = False \<rparr>"

text \<open>Variants: a priority list that knows no priority, a search that fails, both.\<close>

definition world_no_priority :: world where
  "world_no_priority = world_demo\<lparr>priority_get := Inr []\<rparr>"

definition world_search_down :: world where
  "world_search_down = world_demo\<lparr>search_post := (\<lambda>b. Inl (RequestException ''503 Server Error'' None))\<rparr>"

definition world_search_down_no_priority :: world where
  "world_search_down_no_priority = world_search_down\<lparr>priority_get := Inr []\<rparr>"

text \<open>A configuration that maps no field to the object name.\<close>

definition cfg_no_object_field :: config where
  "cfg_no_object_field = cfg_demo\<lparr>custom_field_mappings := [(''request_type'', ''customfield_10010'')]\<rparr>"

text \<open>
  A configuration whose custom field ids shadow standard fields: the request type is
  stored under \<^verbatim>\<open>summary\<close> and the job name under \<^verbatim>\<open>description\<close>.
\<close>

definition cfg_shadow :: config where
  "cfg_shadow = cfg_demo\<lparr>custom_field_mappings :=
     [(''vtom_object_name'', ''customfield_10055''), (''request_type'', ''summary''),
      (''vtom_job_name'', ''description'')]\<rparr>"

text \<open>A remote whose only priority has a name with accented letters (\<^verbatim>\<open>Eleve\<close> with acute accents).\<close>

definition world_accents :: world where
  "world_accents = world_demo\<lparr>priority_get := Inr [(CHR 0xC9 # ''lev'' @ [CHR 0xE9], ''7'')]\<rparr>"

section \<open>Effects of the client functions\<close>

lemma calls_of_Nil [simp]: "calls_of [] = []"
  by (simp add: calls_of_def)

lemma calls_of_Cons [simp]:
  "calls_of (Call c # tr) = c # calls_of tr"
  "calls_of (Print s # tr) = calls_of tr"
  "calls_of (OpenFile p # tr) = calls_of tr"
  by (simp_all add: calls_of_def)

lemma calls_of_append [simp]: "calls_of (xs @ ys) = calls_of xs @ calls_of ys"
  by (simp add: calls_of_def)

lemma calls_of_error_detail [simp]: "calls_of (error_detail e) = []"
  by (cases e rule: error_detail.cases) simp_all

lemma calls_of_error_detail_or_text [simp]: "calls_of (error_detail_or_text e) = []"
  by (cases e rule: error_detail_or_text.cases) simp_all

lemma created_simps [simp]:
  "created [] = []"
  "created (Call c # tr) = (case c of PostIssue b \<Rightarrow> [b] | _ \<Rightarrow> []) @ created tr"
  "created (Print s # tr) = created tr"
  "created (OpenFile p # tr) = created tr"
  "created (xs @ ys) = created xs @ created ys"
  by (simp_all add: created_def)

lemma linked_simps [simp]:
  "linked [] = []"
  "linked (Call c # tr) = (case c of PostIssueLink b \<Rightarrow> [b] | _ \<Rightarrow> []) @ linked tr"
  "linked (Print s # tr) = linked tr"
  "linked (OpenFile p # tr) = linked tr"
  "linked (xs @ ys) = linked xs @ linked ys"
  by (simp_all add: linked_def)

lemma uploads_simps [simp]:
  "uploads [] = []"
  "uploads (Call c # tr) = (case c of PostAttachment k p f \<Rightarrow> [(p, f)] | _ \<Rightarrow> []) @ uploads tr"
  "uploads (Print s # tr) = uploads tr"
  "uploads (OpenFile p # tr) = uploads tr"
  "uploads (xs @ ys) = uploads xs @ uploads ys"
  by (simp_all add: uploads_def)

lemma opened_files_simps [simp]:
  "opened_files [] = []"
  "opened_files (Call c # tr) = opened_files tr"
  "opened_files (Print s # tr) = opened_files tr"
  "opened_files (OpenFile p # tr) = p # opened_files tr"
  "opened_files (xs @ ys) = opened_files xs @ opened_files ys"
  by (simp_all add: opened_files_def)

lemma error_detail_effects [simp]:
  "created (error_detail e) = []" "linked (error_detail e) = []"
  "uploads (error_detail e) = []" "opened_files (error_detail e) = []"
  by (cases e rule: error_detail.cases; simp)+

lemma error_detail_or_text_effects [simp]:
  "created (error_detail_or_text e) = []" "linked (error_detail_or_text e) = []"
  "uploads (error_detail_or_text e) = []" "opened_files (error_detail_or_text e) = []"
  by (cases e rule: error_detail_or_text.cases; simp)+

lemma get_issue_type_id_effects [simp]:
  "created (snd (get_issue_type_id w pk n)) = []" "linked (snd (get_issue_type_id w pk n)) = []"
  "uploads (snd (get_issue_type_id w pk n)) = []" "opened_files (snd (get_issue_type_id w pk n)) = []"
  by (simp_all add: get_issue_type_id_def split: sum.splits option.splits)

lemma get_priority_id_effects [simp]:
  "created (snd (get_priority_id w n)) = []" "linked (snd (get_priority_id w n)) = []"
  "uploads (snd (get_priority_id w n)) = []" "opened_files (snd (get_priority_id w n)) = []"
  by (simp_all add: get_priority_id_def split: sum.splits)

lemma search_existing_issue_effects [simp]:
  "created (snd (search_existing_issue cfg w obj pk)) = []"
  "linked (snd (search_existing_issue cfg w obj pk)) = []"
  "uploads (snd (search_existing_issue cfg w obj pk)) = []"
  "opened_files (snd (search_existing_issue cfg w obj pk)) = []"
  by (simp_all add: search_existing_issue_def Let_def split: sum.splits option.splits)

lemma create_issue_result:
  "fst (create_issue w pk it s d pn asg cf) =
     (case resolved_ids w pk it pn of
        None \<Rightarrow> None
      | Some (tid, pid) \<Rightarrow>
          (case issue_post w (issue_payload pk tid s d pid asg cf) of Inl e \<Rightarrow> None | Inr k \<Rightarrow> Some k))"
  by (simp add: create_issue_def resolved_ids_def split_beta Let_def split: option.splits sum.splits)

lemma create_issue_created:
  "created (snd (create_issue w pk it s d pn asg cf)) =
     (case resolved_ids w pk it pn of
        None \<Rightarrow> []
      | Some (tid, pid) \<Rightarrow> [issue_payload pk tid s d pid asg cf])"
  by (simp add: create_issue_def resolved_ids_def split_beta Let_def split: option.splits sum.splits)

lemma create_issue_effects [simp]:
  "linked (snd (create_issue w pk it s d pn asg cf)) = []"
  "uploads (snd (create_issue w pk it s d pn asg cf)) = []"
  "opened_files (snd (create_issue w pk it s d pn asg cf)) = []"
  by (simp_all add: create_issue_def split_beta Let_def split: option.splits sum.splits)

lemma link_issues_effects [simp]:
  "created (link_issues w k ex) = []" "linked (link_issues w k ex) = [link_data k ex]"
  "uploads (link_issues w k ex) = []" "opened_files (link_issues w k ex) = []"
  by (simp_all add: link_issues_def split: option.splits)

lemma add_attachment_effects:
  "created (snd (add_attachment w k p f)) = []" "linked (snd (add_attachment w k p f)) = []"
  "uploads (snd (add_attachment w k p f)) = (if path_exists w p \<and> file_open w p = None then [(p, f)] else [])"
  "opened_files (snd (add_attachment w k p f)) = (if path_exists w p then [p] else [])"
  by (simp_all add: add_attachment_def split: option.splits)

lemma add_comment_effects [simp]:
  "created (snd (add_comment w k c)) = []" "linked (snd (add_comment w k c)) = []"
  "uploads (snd (add_comment w k c)) = []" "opened_files (snd (add_comment w k c)) = []"
  by (simp_all add: add_comment_def Let_def split: option.splits)

lemma attach_if_provided_effects:
  "created (attach_if_provided w k f n l) = []" "linked (attach_if_provided w k f n l) = []"
  "uploads (attach_if_provided w k f n l) = filter (\<lambda>(p, m). file_open w p = None) (attachable w f n)"
  "opened_files (attach_if_provided w k f n l) = map fst (attachable w f n)"
  by (auto simp: attach_if_provided_def attachable_def add_attachment_effects split_beta split: option.splits)

lemma post_process_effects:
  "created (post_process w a k) = []" "linked (post_process w a k) = []"
  "uploads (post_process w a k) =
     filter (\<lambda>(p, m). file_open w p = None)
       (attachable w (outAttachmentFile a) (outAttachmentName a)
        @ attachable w (errorAttachmentFile a) (errorAttachmentName a))"
  "opened_files (post_process w a k) =
     map fst (attachable w (outAttachmentFile a) (outAttachmentName a)
              @ attachable w (errorAttachmentFile a) (errorAttachmentName a))"
  by (simp_all add: post_process_def attach_if_provided_effects split_beta)

lemma printed_lines_effects [simp]:
  "created (map (\<lambda>x. Print (f x)) xs) = []" "linked (map (\<lambda>x. Print (f x)) xs) = []"
  "uploads (map (\<lambda>x. Print (f x)) xs) = []" "opened_files (map (\<lambda>x. Print (f x)) xs) = []"
  by (induction xs) simp_all

lemma debug_mode_effects [simp]:
  "created (debug_mode w a) = []" "linked (debug_mode w a) = []"
  "uploads (debug_mode w a) = []" "opened_files (debug_mode w a) = []"
  by (simp_all add: debug_mode_def split_def split: sum.splits)

lemma main_debug: "debug a \<Longrightarrow> main cfg w a = (0, debug_mode w a)"
  by (simp add: main_def)

text \<open>Exit status and requests of \<^verbatim>\<open>main\<close> in terms of the search and the creation.\<close>

lemma main_exit:
  "\<not> debug a \<Longrightarrow>
   fst (main cfg w a) =
     (case fst (search_existing_issue cfg w (objectName a) (projectKey a)) of
        None \<Rightarrow>
          (case fst (create_issue w (projectKey a) (mapped_issue_type cfg a) (summary a) (description a)
                 (mapped_priority cfg a) (assignee a) (prepare_custom_fields cfg (objectName a))) of
             None \<Rightarrow> 1 | Some k \<Rightarrow> 0)
      | Some ex \<Rightarrow>
          (case fst (create_issue w (projectKey a) (mapped_issue_type cfg a)
                 (linked_summary a (issue_key ex)) (linked_description a (issue_key ex))
                 (mapped_priority cfg a) (assignee a) (prepare_custom_fields cfg (objectName a))) of
             None \<Rightarrow> 1 | Some k \<Rightarrow> 0))"
  by (simp add: main_def split_beta Let_def split: option.splits)

lemma main_created:
  "\<not> debug a \<Longrightarrow>
   created (snd (main cfg w a)) =
     (case fst (search_existing_issue cfg w (objectName a) (projectKey a)) of
        None \<Rightarrow>
          created (snd (create_issue w (projectKey a) (mapped_issue_type cfg a) (summary a) (description a)
                 (mapped_priority cfg a) (assignee a) (prepare_custom_fields cfg (objectName a))))
      | Some ex \<Rightarrow>
          created (snd (create_issue w (projectKey a) (mapped_issue_type cfg a)
                 (linked_summary a (issue_key ex)) (linked_description a (issue_key ex))
                 (mapped_priority cfg a) (assignee a) (prepare_custom_fields cfg (objectName a)))))"
  by (simp add: main_def split_beta Let_def post_process_effects split: option.splits)

lemma main_linked:
  "\<not> debug a \<Longrightarrow>
   linked (snd (main cfg w a)) =
     (case fst (search_existing_issue cfg w (objectName a) (projectKey a)) of
        None \<Rightarrow> []
      | Some ex \<Rightarrow>
          (case fst (create_issue w (projectKey a) (mapped_issue_type cfg a)
                 (linked_summary a (issue_key ex)) (linked_description a (issue_key ex))
                 (mapped_priority cfg a) (assignee a) (prepare_custom_fields cfg (objectName a))) of
             None \<Rightarrow> []
           | Some k \<Rightarrow> [link_data k (issue_key ex)]))"
  by (simp add: main_def split_beta Let_def post_process_effects split: option.splits)

section \<open>The in-memory filter of the search\<close>

text \<open>
  The table of \<open>lower_char\<close> is Python's rule on the code points below 256: the ranges
  65-90, 192-214 and 216-222 move up by 32, every other code point stays.
\<close>

lemma lower_char_code_point:
  "(of_char (lower_char c) :: nat) =
     (let n = of_char c in
      if (65 \<le> n \<and> n \<le> 90) \<or> (192 \<le> n \<and> n \<le> 214) \<or> (216 \<le> n \<and> n \<le> 222)
      then n + 32 else n)"
  by (cases c) (simp add: lower_char_def upper_letters_def lower_letters_def Let_def)

lemma lower_closed_words:
  "lower ''done'' = ''done''" "lower ''closed'' = ''closed''" "lower ''resolved'' = ''resolved''"
  by (simp_all add: lower_def lower_char_def upper_letters_def lower_letters_def)

lemma status_closed_iff:
  "status_closed i \<longleftrightarrow>
     lower (case status_name i of None \<Rightarrow> [] | Some s \<Rightarrow> s) \<in> set [''done'', ''closed'', ''resolved'']"
  by (auto simp: status_closed_def ci_equal_def status_of_def lower_closed_words)

text \<open>The loop returns the first surviving candidate of the page, if there is one.\<close>

lemma scan_issues_survivors:
  "scan_issues fid obj issues =
     (case filter (survives fid obj) issues of [] \<Rightarrow> None | c # older \<Rightarrow> Some c)"
proof (induction issues)
  case Nil
  show ?case by simp
next
  case (Cons i rest)
  show ?case
  proof (cases "survives fid obj i")
    case True
    then show ?thesis
      by (auto simp: survives_def status_closed_iff Let_def)
  next
    case False
    then show ?thesis
      using Cons.IH
      by (auto simp: survives_def status_closed_iff Let_def split: option.splits)
  qed
qed

lemma scan_issues_SomeD:
  assumes "scan_issues fid obj issues = Some c"
  shows "c \<in> set issues \<and> survives fid obj c"
proof -
  from assms obtain older where "filter (survives fid obj) issues = c # older"
    by (auto simp: scan_issues_survivors split: list.splits)
  then have "c \<in> set (filter (survives fid obj) issues)" by simp
  then show ?thesis by simp
qed

lemma search_existing_issue_result:
  "fst (search_existing_issue cfg w obj pk) =
     (case object_field_id cfg of
        None \<Rightarrow> None
      | Some fid \<Rightarrow>
          (case search_post w (search_body fid pk) of
             Inl e \<Rightarrow> None
           | Inr issues \<Rightarrow> scan_issues fid obj issues))"
  by (simp add: search_existing_issue_def object_field_id_def Let_def split: option.splits sum.splits)

lemma search_existing_issue_SomeD:
  assumes "fst (search_existing_issue cfg w obj pk) = Some c"
  shows "\<exists>fid issues. object_field_id cfg = Some fid \<and> search_post w (search_body fid pk) = Inr issues
           \<and> c \<in> set issues \<and> survives fid obj c"
  using assms
  by (auto simp: search_existing_issue_result split: option.splits sum.splits dest: scan_issues_SomeD)

text \<open>
  C3: the filter skips every ticket whose status name is Done, Closed or Resolved in any
  case: the loop gives the same result on the page with these tickets removed, and the
  search never returns such a ticket, whatever the alarm.
\<close>

theorem closed_tickets_skipped:
  "scan_issues fid obj issues = scan_issues fid obj (filter (\<lambda>i. \<not> status_closed i) issues)
   \<and> (status_closed c \<longrightarrow> fst (search_existing_issue cfg w obj pk) \<noteq> Some c)"
proof
  have "filter (survives fid obj) (filter (\<lambda>i. \<not> status_closed i) issues) = filter (survives fid obj) issues"
    by (auto simp: survives_def intro: filter_cong)
  then show "scan_issues fid obj issues = scan_issues fid obj (filter (\<lambda>i. \<not> status_closed i) issues)"
    by (simp add: scan_issues_survivors)
next
  show "status_closed c \<longrightarrow> fst (search_existing_issue cfg w obj pk) \<noteq> Some c"
    by (auto dest!: search_existing_issue_SomeD simp: survives_def)
qed

theorem closed_tickets_skipped_witness:
  "status_closed (page_demo ! 0)
   \<and> scan_issues ''customfield_10055'' ''ETL_NIGHTLY'' page_demo
       = scan_issues ''customfield_10055'' ''ETL_NIGHTLY'' (filter (\<lambda>i. \<not> status_closed i) page_demo)
   \<and> fst (search_existing_issue cfg_demo world_demo ''ETL_NIGHTLY'' ''PROJ'') \<noteq> Some (page_demo ! 0)
   \<and> map issue_key (filter (\<lambda>i. \<not> status_closed i) page_demo)
       = [''PROJ-43'', ''PROJ-42'', ''PROJ-40'', ''PROJ-39'']"
proof -
  have closed: "status_closed (page_demo ! 0)"
    by code_simp
  have rest: "map issue_key (filter (\<lambda>i. \<not> status_closed i) page_demo)
                = [''PROJ-43'', ''PROJ-42'', ''PROJ-40'', ''PROJ-39'']"
    by code_simp
  from closed rest
    closed_tickets_skipped [of "''customfield_10055''" "''ETL_NIGHTLY''" page_demo "page_demo ! 0"
      cfg_demo world_demo "''PROJ''"]
  show ?thesis by blast
qed

text \<open>
  C4: object-name matching is exact and case-sensitive: the search returns a candidate
  only when the value of its object-name field is the string of the alarm's object name,
  and a candidate holding \<^verbatim>\<open>Job_A\<close> is never returned for an alarm about \<^verbatim>\<open>job_a\<close>.
\<close>

theorem object_name_match_exact:
  "(fst (search_existing_issue cfg w obj pk) = Some c \<longrightarrow> vtom_value cfg c = Some (JStr obj))
   \<and> (vtom_value cfg c = Some (JStr ''Job_A'') \<longrightarrow> fst (search_existing_issue cfg w ''job_a'' pk) \<noteq> Some c)"
  by (auto dest!: search_existing_issue_SomeD simp: survives_def vtom_value_def)

theorem object_name_match_exact_witness:
  "fst (search_existing_issue cfg_demo world_demo ''ETL_NIGHTLY'' ''PROJ'') = Some (page_demo ! 2)
   \<and> vtom_value cfg_demo (page_demo ! 2) = Some (JStr ''ETL_NIGHTLY'')
   \<and> vtom_value cfg_demo (page_demo ! 4) = Some (JStr ''Job_A'')
   \<and> fst (search_existing_issue cfg_demo world_demo ''job_a'' ''PROJ'') \<noteq> Some (page_demo ! 4)"
proof -
  have found: "fst (search_existing_issue cfg_demo world_demo ''ETL_NIGHTLY'' ''PROJ'') = Some (page_demo ! 2)"
    by code_simp
  have holds: "vtom_value cfg_demo (page_demo ! 4) = Some (JStr ''Job_A'')"
    by code_simp
  from found holds
    object_name_match_exact [of cfg_demo world_demo "''ETL_NIGHTLY''" "''PROJ''" "page_demo ! 2"]
    object_name_match_exact [of cfg_demo world_demo "''ETL_NIGHTLY''" "''PROJ''" "page_demo ! 4"]
  show ?thesis by blast
qed

text \<open>
  C10: a candidate whose object-name field is absent, null or the empty string is never
  returned by the search, for any object name; for the empty object name the search
  returns nothing at all, since a matching value would have to be the empty string,
  which the truth test on the value rejects.
\<close>

theorem empty_object_field_never_selected:
  "(vtom_value cfg c = None \<or> vtom_value cfg c = Some JNull \<or> vtom_value cfg c = Some (JStr [])
      \<longrightarrow> fst (search_existing_issue cfg w obj pk) \<noteq> Some c)
   \<and> fst (search_existing_issue cfg w [] pk) = None"
proof -
  have "fst (search_existing_issue cfg w [] pk) \<noteq> Some d" for d
    by (auto dest!: search_existing_issue_SomeD simp: survives_def)
  then have "fst (search_existing_issue cfg w [] pk) = None"
    by (cases "fst (search_existing_issue cfg w [] pk)") auto
  then show ?thesis
    by (auto dest!: search_existing_issue_SomeD simp: survives_def vtom_value_def)
qed

theorem empty_object_field_never_selected_witness:
  "vtom_value cfg_demo (page_demo ! 1) = Some JNull
   \<and> fst (search_existing_issue cfg_demo world_demo ''ETL_NIGHTLY'' ''PROJ'') \<noteq> Some (page_demo ! 1)
   \<and> fst (search_existing_issue cfg_demo world_demo [] ''PROJ'') = None"
proof -
  have null: "vtom_value cfg_demo (page_demo ! 1) = Some JNull"
    by code_simp
  from null
    empty_object_field_never_selected [of cfg_demo "page_demo ! 1" world_demo "''ETL_NIGHTLY''" "''PROJ''"]
  show ?thesis by blast
qed

section \<open>Lookups and the preconditions of issue creation\<close>

lemma lookup_name_first_match: "lookup_name n xs = first_match n xs"
  by (induction xs) (auto simp: first_match_def ci_equal_def)

lemma resolved_ids_None_iff:
  "resolved_ids w pk it pn = None \<longleftrightarrow>
     nonempty (fst (get_issue_type_id w pk it)) = None \<or> nonempty (fst (get_priority_id w pn)) = None"
  by (auto simp: resolved_ids_def split: option.splits)

text \<open>
  C6: both lookups compare names up to case, as \<^verbatim>\<open>str.lower()\<close> folds it (accented
  letters included), and return the id of the first matching entry: the priority lookup
  over the priority list, the issue type lookup over the project's issue types and, when
  none of them matches, over the global list. Without a matching entry the result is
  \<open>None\<close>; \<^verbatim>\<open>create_issue\<close> then returns \<open>None\<close> without any request to create
  an issue, and a run that reaches the creation ends with exit status 1.
\<close>

theorem lookups_first_match_or_not_found:
  "(priority_get w = Inr ps \<longrightarrow> fst (get_priority_id w n) = first_match n ps)
   \<and> (project_get w pk = Inr pd \<longrightarrow>
        fst (get_issue_type_id w pk n) =
          (case first_match n (issueTypes pd) of
             Some i \<Rightarrow> Some i
           | None \<Rightarrow> (case issuetype_get w of Inl e \<Rightarrow> None | Inr its \<Rightarrow> first_match n its)))
   \<and> (fst (get_issue_type_id w pk it) = None \<or> fst (get_priority_id w pn) = None \<longrightarrow>
        fst (create_issue w pk it s d pn asg cf) = None
        \<and> created (snd (create_issue w pk it s d pn asg cf)) = [])
   \<and> (\<not> debug a
        \<and> (fst (get_issue_type_id w (projectKey a) (mapped_issue_type cfg a)) = None
           \<or> fst (get_priority_id w (mapped_priority cfg a)) = None) \<longrightarrow>
        fst (main cfg w a) = 1)"
proof (intro conjI impI)
  assume "priority_get w = Inr ps"
  then show "fst (get_priority_id w n) = first_match n ps"
    by (simp add: get_priority_id_def lookup_name_first_match)
next
  assume "project_get w pk = Inr pd"
  then show "fst (get_issue_type_id w pk n) =
          (case first_match n (issueTypes pd) of
             Some i \<Rightarrow> Some i
           | None \<Rightarrow> (case issuetype_get w of Inl e \<Rightarrow> None | Inr its \<Rightarrow> first_match n its))"
    by (simp add: get_issue_type_id_def lookup_name_first_match split: option.splits sum.splits)
next
  assume "fst (get_issue_type_id w pk it) = None \<or> fst (get_priority_id w pn) = None"
  then have none: "resolved_ids w pk it pn = None"
    by (auto simp: resolved_ids_None_iff)
  show "fst (create_issue w pk it s d pn asg cf) = None"
    by (simp add: create_issue_result none)
  show "created (snd (create_issue w pk it s d pn asg cf)) = []"
    by (simp add: create_issue_created none)
next
  assume run: "\<not> debug a
        \<and> (fst (get_issue_type_id w (projectKey a) (mapped_issue_type cfg a)) = None
           \<or> fst (get_priority_id w (mapped_priority cfg a)) = None)"
  then have "resolved_ids w (projectKey a) (mapped_issue_type cfg a) (mapped_priority cfg a) = None"
    by (auto simp: resolved_ids_None_iff)
  with run show "fst (main cfg w a) = 1"
    by (simp add: main_exit create_issue_result split: option.splits)
qed

theorem lookups_first_match_or_not_found_witness:
  "priority_get world_demo =
     Inr [(''Highest'', ''1''), (''High'', ''2''), (''Medium'', ''3''), (''Low'', ''4''), (''Lowest'', ''5'')]
   \<and> fst (get_priority_id world_demo ''HIGH'') = Some ''2''
   \<and> fst (get_issue_type_id world_demo ''PROJ'' ''Incident'') = Some ''10101''
   \<and> fst (get_priority_id world_demo ''Urgent'') = None
   \<and> fst (create_issue world_demo ''PROJ'' ''Incident'' ''Job failed'' ''Exit code 2'' ''Urgent'' None []) = None
   \<and> created (snd (create_issue world_demo ''PROJ'' ''Incident'' ''Job failed'' ''Exit code 2'' ''Urgent'' None [])) = []
   \<and> \<not> debug (args_demo\<lparr>priority := Some ''Urgent'', severity := None\<rparr>)
   \<and> fst (main cfg_demo world_demo (args_demo\<lparr>priority := Some ''Urgent'', severity := None\<rparr>)) = 1
   \<and> priority_get world_accents = Inr [(CHR 0xC9 # ''lev'' @ [CHR 0xE9], ''7'')]
   \<and> fst (get_priority_id world_accents (CHR 0xE9 # ''lev'' @ [CHR 0xE9])) = Some ''7''
   \<and> fst (get_priority_id world_accents (CHR 0xC9 # ''LEV'' @ [CHR 0xC9])) = Some ''7''"
proof -
  let ?ps = "[(''Highest'', ''1''), (''High'', ''2''), (''Medium'', ''3''), (''Low'', ''4''), (''Lowest'', ''5'')]"
  let ?pd = "\<lparr> project_name = Some ''Operations'',
               issueTypes = [(''[System] Incident'', ''10001''), (''Task'', ''10002'')] \<rparr>"
  let ?a = "args_demo\<lparr>priority := Some ''Urgent'', severity := None\<rparr>"
  let ?qs = "[(CHR 0xC9 # ''lev'' @ [CHR 0xE9], ''7'')]"
  have prios: "priority_get world_demo = Inr ?ps"
    by (simp add: world_demo_def)
  have proj: "project_get world_demo ''PROJ'' = Inr ?pd"
    by (simp add: world_demo_def)
  have high: "first_match ''HIGH'' ?ps = Some ''2''"
    by code_simp
  have incident: "(case first_match ''Incident'' (issueTypes ?pd) of
             Some i \<Rightarrow> Some i
           | None \<Rightarrow> (case issuetype_get world_demo of Inl e \<Rightarrow> None | Inr its \<Rightarrow> first_match ''Incident'' its))
          = Some ''10101''"
    by code_simp
  have urgent: "first_match ''Urgent'' ?ps = None"
    by code_simp
  have run: "\<not> debug ?a" "mapped_priority cfg_demo ?a = ''Urgent''"
    by (simp_all add: args_demo_def mapped_priority_def)
  have accents: "priority_get world_accents = Inr ?qs"
    by (simp add: world_accents_def)
  have lowered: "first_match (CHR 0xE9 # ''lev'' @ [CHR 0xE9]) ?qs = Some ''7''"
    by code_simp
  have raised: "first_match (CHR 0xC9 # ''LEV'' @ [CHR 0xC9]) ?qs = Some ''7''"
    by code_simp
  note high_priority = lookups_first_match_or_not_found [of world_demo ?ps "''HIGH''" "''PROJ''" ?pd]
  note incident_type = lookups_first_match_or_not_found [of world_demo ?ps "''Incident''" "''PROJ''" ?pd]
  note no_priority = lookups_first_match_or_not_found [of world_demo ?ps "''Urgent''" "''PROJ''" ?pd
      "''Incident''" "''Urgent''" "''Job failed''" "''Exit code 2''" None "[]" ?a cfg_demo]
  note lower_accents = lookups_first_match_or_not_found [of world_accents ?qs "CHR 0xE9 # ''lev'' @ [CHR 0xE9]"]
  note upper_accents = lookups_first_match_or_not_found [of world_accents ?qs "CHR 0xC9 # ''LEV'' @ [CHR 0xC9]"]
  have first: "priority_get world_demo = Inr ?ps
     \<and> fst (get_priority_id world_demo ''HIGH'') = Some ''2''
     \<and> fst (get_issue_type_id world_demo ''PROJ'' ''Incident'') = Some ''10101''
     \<and> fst (get_priority_id world_demo ''Urgent'') = None
     \<and> fst (create_issue world_demo ''PROJ'' ''Incident'' ''Job failed'' ''Exit code 2'' ''Urgent'' None []) = None
     \<and> created (snd (create_issue world_demo ''PROJ'' ''Incident'' ''Job failed'' ''Exit code 2'' ''Urgent'' None [])) = []
     \<and> \<not> debug ?a
     \<and> fst (main cfg_demo world_demo ?a) = 1"
    using prios proj high incident urgent run high_priority incident_type no_priority
    by simp
  have second: "fst (get_priority_id world_accents (CHR 0xE9 # ''lev'' @ [CHR 0xE9])) = Some ''7''
     \<and> fst (get_priority_id world_accents (CHR 0xC9 # ''LEV'' @ [CHR 0xC9])) = Some ''7''"
    using accents lowered raised lower_accents upper_accents
    by simp
  from first accents second show ?thesis
    by blast
qed

text \<open>
  C5, as amended: a priority name for which the lookup finds no id means that no request
  to create an issue is made, and the run ends with exit status 1 unless it is in debug
  mode, where it ends with exit status 0 after printing the listings; the same holds for
  an issue type name.
\<close>

theorem unresolved_names_abort:
  assumes "nonempty (fst (get_priority_id w (mapped_priority cfg a))) = None
           \<or> nonempty (fst (get_issue_type_id w (projectKey a) (mapped_issue_type cfg a))) = None"
  shows "created (snd (main cfg w a)) = [] \<and> fst (main cfg w a) = (if debug a then 0 else 1)"
proof (cases "debug a")
  case True
  then show ?thesis by (simp add: main_debug)
next
  case False
  from assms
  have none: "resolved_ids w (projectKey a) (mapped_issue_type cfg a) (mapped_priority cfg a) = None"
    by (auto simp: resolved_ids_None_iff)
  show ?thesis
    using False
    by (simp add: main_exit main_created create_issue_result create_issue_created none split: option.splits)
qed

theorem unresolved_names_abort_witness:
  "nonempty (fst (get_priority_id world_demo
        (mapped_priority cfg_demo (args_demo\<lparr>priority := Some ''Urgent'', severity := None\<rparr>)))) = None
   \<and> fst (main cfg_demo world_demo (args_demo\<lparr>priority := Some ''Urgent'', severity := None\<rparr>)) = 1
   \<and> created (snd (main cfg_demo world_demo (args_demo\<lparr>priority := Some ''Urgent'', severity := None\<rparr>))) = []
   \<and> nonempty (fst (get_issue_type_id world_demo ''PROJ''
        (mapped_issue_type cfg_demo (args_demo\<lparr>issueType := Some ''Problem'', alarmType := None\<rparr>)))) = None
   \<and> fst (main cfg_demo world_demo (args_demo\<lparr>issueType := Some ''Problem'', alarmType := None\<rparr>)) = 1
   \<and> created (snd (main cfg_demo world_demo (args_demo\<lparr>issueType := Some ''Problem'', alarmType := None\<rparr>))) = []"
proof -
  let ?a = "args_demo\<lparr>priority := Some ''Urgent'', severity := None\<rparr>"
  let ?b = "args_demo\<lparr>issueType := Some ''Problem'', alarmType := None\<rparr>"
  have not_debug: "\<not> debug ?a" "\<not> debug ?b"
    by (simp_all add: args_demo_def)
  have key: "projectKey ?b = ''PROJ''"
    by (simp add: args_demo_def)
  have no_priority: "nonempty (fst (get_priority_id world_demo (mapped_priority cfg_demo ?a))) = None"
    by code_simp
  have no_type: "nonempty (fst (get_issue_type_id world_demo ''PROJ'' (mapped_issue_type cfg_demo ?b))) = None"
    by code_simp
  from not_debug key no_priority no_type
    unresolved_names_abort [of world_demo cfg_demo ?a]
    unresolved_names_abort [of world_demo cfg_demo ?b]
  show ?thesis by simp
qed

text \<open>
  C5 as stated, for every invocation, fails in debug mode: the run prints the listings and
  ends with exit status 0, whether or not the priority name is known.
\<close>

theorem unresolved_priority_debug_counterexample:
  "nonempty (fst (get_priority_id world_demo
        (mapped_priority cfg_demo (args_demo\<lparr>priority := Some ''Urgent'', severity := None, debug := True\<rparr>)))) = None
   \<and> fst (main cfg_demo world_demo (args_demo\<lparr>priority := Some ''Urgent'', severity := None, debug := True\<rparr>)) = 0"
  by code_simp

section \<open>The fields of a creation request\<close>

lemma dict_update_other:
  "k \<notin> fst ` set e \<Longrightarrow> map_of (dict_update d e) k = map_of d k"
  unfolding dict_update_def
  by (induction e arbitrary: d) (auto simp: update_conv')

lemma payload_fields_issue_payload:
  "payload_fields (issue_payload pk tid s d pid asg cf) =
     (let fields1 = (case nonempty asg of
                       Some a \<Rightarrow> AList.update ''assignee'' (JObj [(''emailAddress'', JStr a)])
                         [(''project'', JObj [(''key'', JStr pk)]), (''issuetype'', JObj [(''id'', JStr tid)]),
                          (''summary'', JStr s), (''description'', adf_doc d), (''priority'', JObj [(''id'', JStr pid)])]
                     | None \<Rightarrow>
                         [(''project'', JObj [(''key'', JStr pk)]), (''issuetype'', JObj [(''id'', JStr tid)]),
                          (''summary'', JStr s), (''description'', adf_doc d), (''priority'', JObj [(''id'', JStr pid)])])
      in if cf \<noteq> [] then dict_update fields1 cf else fields1)"
  by (simp add: issue_payload_def Let_def)

text \<open>A standard field that no custom field shadows holds what \<^verbatim>\<open>create_issue\<close> was given.\<close>

lemma payload_standard_fields:
  "''summary'' \<notin> fst ` set cf \<Longrightarrow>
     map_of (payload_fields (issue_payload pk tid s d pid asg cf)) ''summary'' = Some (JStr s)"
  "''description'' \<notin> fst ` set cf \<Longrightarrow>
     map_of (payload_fields (issue_payload pk tid s d pid asg cf)) ''description'' = Some (adf_doc d)"
  by (simp_all add: payload_fields_issue_payload Let_def dict_update_other update_conv' split: option.splits)

section \<open>The decision between a fresh and a related ticket\<close>

lemma search_first_survivor:
  assumes "object_field_id cfg = Some fid"
    and "search_post w (search_body fid pk) = Inr issues"
    and "filter (survives fid obj) issues = c # older"
  shows "fst (search_existing_issue cfg w obj pk) = Some c"
  using assms by (simp add: search_existing_issue_result scan_issues_survivors)

text \<open>
  C1, as amended: in a run that processes an alarm, when the search page holds at least
  one surviving candidate (open status, object-name field equal to the object name) and
  the issue type and the priority both resolve, exactly one request to create an issue is
  made. Unless a custom field stored with the request has the id \<^verbatim>\<open>summary\<close>, the
  summary of the request is the alarm summary followed by \<^verbatim>\<open> (Related to KEY)\<close>;
  unless one has the id \<^verbatim>\<open>description\<close>, its description is the document whose text
  starts with \<^verbatim>\<open>This issue is related to existing issue KEY\<close>; here \<open>KEY\<close> is the
  key of the first surviving candidate in page order, and the later candidates play no
  role. When the request succeeds exactly one link request follows, with the candidate's
  key as outward issue; when it fails the run ends with exit status 1 and no link
  request.
\<close>

theorem linked_ticket_for_newest_candidate:
  assumes "\<not> debug a"
    and "object_field_id cfg = Some fid"
    and "search_post w (search_body fid (projectKey a)) = Inr issues"
    and "filter (survives fid (objectName a)) issues = c # older"
    and "resolved_ids w (projectKey a) (mapped_issue_type cfg a) (mapped_priority cfg a) = Some (tid, pid)"
  shows "let body = issue_payload (projectKey a) tid
                      (summary a @ '' (Related to '' @ issue_key c @ '')'')
                      (''This issue is related to existing issue '' @ issue_key c @ [CHR 0x0A, CHR 0x0A]
                       @ ''VTOM Object: '' @ objectName a @ [CHR 0x0A, CHR 0x0A] @ description a)
                      pid (assignee a) (prepare_custom_fields cfg (objectName a))
         in created (snd (main cfg w a)) = [body]
            \<and> (''summary'' \<notin> fst ` set (prepare_custom_fields cfg (objectName a)) \<longrightarrow>
                 map_of (payload_fields body) ''summary''
                   = Some (JStr (summary a @ '' (Related to '' @ issue_key c @ '')'')))
            \<and> (''description'' \<notin> fst ` set (prepare_custom_fields cfg (objectName a)) \<longrightarrow>
                 map_of (payload_fields body) ''description''
                   = Some (JObj [(''type'', JStr ''doc''), (''version'', JNum 1),
                        (''content'', JArr [JObj [(''type'', JStr ''paragraph''),
                           (''content'', JArr [JObj [(''type'', JStr ''text''),
                              (''text'', JStr (''This issue is related to existing issue '' @ issue_key c
                                 @ [CHR 0x0A, CHR 0x0A] @ ''VTOM Object: '' @ objectName a
                                 @ [CHR 0x0A, CHR 0x0A] @ description a))]])]])]))
            \<and> (case issue_post w body of
                  Inr new_key \<Rightarrow>
                    linked (snd (main cfg w a)) =
                      [JObj [(''type'', JObj [(''name'', JStr ''Relates'')]),
                             (''inwardIssue'', JObj [(''key'', JStr new_key)]),
                             (''outwardIssue'', JObj [(''key'', JStr (issue_key c))])]]
                    \<and> fst (main cfg w a) = 0
                | Inl e \<Rightarrow> linked (snd (main cfg w a)) = [] \<and> fst (main cfg w a) = 1)"
proof -
  have found: "fst (search_existing_issue cfg w (objectName a) (projectKey a)) = Some c"
    using assms(2-4) by (rule search_first_survivor)
  have run: "let body = issue_payload (projectKey a) tid
                      (summary a @ '' (Related to '' @ issue_key c @ '')'')
                      (''This issue is related to existing issue '' @ issue_key c @ [CHR 0x0A, CHR 0x0A]
                       @ ''VTOM Object: '' @ objectName a @ [CHR 0x0A, CHR 0x0A] @ description a)
                      pid (assignee a) (prepare_custom_fields cfg (objectName a))
         in created (snd (main cfg w a)) = [body]
            \<and> (case issue_post w body of
                  Inr new_key \<Rightarrow>
                    linked (snd (main cfg w a)) =
                      [JObj [(''type'', JObj [(''name'', JStr ''Relates'')]),
                             (''inwardIssue'', JObj [(''key'', JStr new_key)]),
                             (''outwardIssue'', JObj [(''key'', JStr (issue_key c))])]]
                    \<and> fst (main cfg w a) = 0
                | Inl e \<Rightarrow> linked (snd (main cfg w a)) = [] \<and> fst (main cfg w a) = 1)"
    using assms(1,5) found
    by (simp add: main_exit main_created main_linked create_issue_result create_issue_created
          linked_summary_def linked_description_def nl_def link_data_def Let_def
        split: sum.splits)
  from run show ?thesis
    by (auto simp: Let_def payload_standard_fields adf_doc_def)
qed

theorem linked_ticket_for_newest_candidate_witness:
  "\<not> debug args_demo
   \<and> object_field_id cfg_demo = Some ''customfield_10055''
   \<and> map issue_key (filter (survives ''customfield_10055'' ''ETL_NIGHTLY'') page_demo) = [''PROJ-42'', ''PROJ-40'']
   \<and> resolved_ids world_demo ''PROJ'' (mapped_issue_type cfg_demo args_demo) (mapped_priority cfg_demo args_demo)
       = Some (''10101'', ''1'')
   \<and> ''summary'' \<notin> fst ` set (prepare_custom_fields cfg_demo ''ETL_NIGHTLY'')
   \<and> ''description'' \<notin> fst ` set (prepare_custom_fields cfg_demo ''ETL_NIGHTLY'')
   \<and> length (created (snd (main cfg_demo world_demo args_demo))) = 1
   \<and> map_of (payload_fields (hd (created (snd (main cfg_demo world_demo args_demo))))) ''summary''
       = Some (JStr ''Job failed (Related to PROJ-42)'')
   \<and> map_of (payload_fields (hd (created (snd (main cfg_demo world_demo args_demo))))) ''description''
       = Some (JObj [(''type'', JStr ''doc''), (''version'', JNum 1),
            (''content'', JArr [JObj [(''type'', JStr ''paragraph''),
               (''content'', JArr [JObj [(''type'', JStr ''text''),
                  (''text'', JStr (''This issue is related to existing issue PROJ-42'' @ [CHR 0x0A, CHR 0x0A]
                     @ ''VTOM Object: ETL_NIGHTLY'' @ [CHR 0x0A, CHR 0x0A] @ ''Exit code 2''))]])]])])
   \<and> linked (snd (main cfg_demo world_demo args_demo)) =
       [JObj [(''type'', JObj [(''name'', JStr ''Relates'')]),
              (''inwardIssue'', JObj [(''key'', JStr ''PROJ-45'')]),
              (''outwardIssue'', JObj [(''key'', JStr ''PROJ-42'')])]]
   \<and> fst (main cfg_demo world_demo args_demo) = 0"
proof -
  have not_debug: "\<not> debug args_demo"
    by (simp add: args_demo_def)
  have field: "object_field_id cfg_demo = Some ''customfield_10055''"
    by code_simp
  have page: "search_post world_demo (search_body ''customfield_10055'' (projectKey args_demo)) = Inr page_demo"
    by (simp add: world_demo_def)
  have survivors: "filter (survives ''customfield_10055'' (objectName args_demo)) page_demo
                     = page_demo ! 2 # [page_demo ! 3]"
    by code_simp
  have ids: "resolved_ids world_demo (projectKey args_demo) (mapped_issue_type cfg_demo args_demo)
               (mapped_priority cfg_demo args_demo) = Some (''10101'', ''1'')"
    by code_simp
  have free: "''summary'' \<notin> fst ` set (prepare_custom_fields cfg_demo ''ETL_NIGHTLY'')"
     "''description'' \<notin> fst ` set (prepare_custom_fields cfg_demo ''ETL_NIGHTLY'')"
    by code_simp+
  have a: "projectKey args_demo = ''PROJ''" "objectName args_demo = ''ETL_NIGHTLY''"
     "summary args_demo = ''Job failed''" "description args_demo = ''Exit code 2''" "assignee args_demo = None"
    by (simp_all add: args_demo_def)
  have key: "issue_key (page_demo ! 2) = ''PROJ-42''" "issue_key (page_demo ! 3) = ''PROJ-40''"
    by (simp_all add: page_demo_def)
  have post: "issue_post world_demo b = Inr ''PROJ-45''" for b
    by (simp add: world_demo_def)
  from linked_ticket_for_newest_candidate [OF not_debug field page survivors ids]
  show ?thesis
    using not_debug field survivors ids free
    by (simp add: a key post Let_def)
qed

text \<open>
  C1 as stated fails in two ways. With a surviving candidate on the page and a priority
  list that does not know the priority, no issue is created and no link is requested.
  With a configuration that stores the request type under \<^verbatim>\<open>summary\<close> and the job name
  under \<^verbatim>\<open>description\<close>, the one request has the summary \<^verbatim>\<open>14\<close> and the
  description \<^verbatim>\<open>ETL_NIGHTLY\<close>, and neither names the candidate.
\<close>

theorem linked_ticket_unresolved_priority_counterexample:
  "\<not> debug args_demo
   \<and> map_option issue_key (fst (search_existing_issue cfg_demo world_no_priority
         (objectName args_demo) (projectKey args_demo))) = Some ''PROJ-42''
   \<and> created (snd (main cfg_demo world_no_priority args_demo)) = []
   \<and> linked (snd (main cfg_demo world_no_priority args_demo)) = []
   \<and> fst (main cfg_demo world_no_priority args_demo) = 1
   \<and> map_option issue_key (fst (search_existing_issue cfg_shadow world_demo
         (objectName args_demo) (projectKey args_demo))) = Some ''PROJ-42''
   \<and> fst (main cfg_shadow world_demo args_demo) = 0
   \<and> length (created (snd (main cfg_shadow world_demo args_demo))) = 1
   \<and> map_of (payload_fields (hd (created (snd (main cfg_shadow world_demo args_demo))))) ''summary''
       = Some (JStr ''14'')
   \<and> map_of (payload_fields (hd (created (snd (main cfg_shadow world_demo args_demo))))) ''description''
       = Some (JStr ''ETL_NIGHTLY'')"
  by code_simp

text \<open>
  C2, as amended: in a run that processes an alarm and whose search returns no candidate,
  no link request is made; when the issue type and the priority both resolve, exactly
  one request to create an issue is made, whose summary is the alarm's own summary unless
  a custom field stored with the request has the id \<^verbatim>\<open>summary\<close>, and whose
  description is the document with the alarm's own description as text unless one has
  the id \<^verbatim>\<open>description\<close>; the exit status is 0 when the request succeeds and 1 when
  it fails. When one of the two names does not resolve, no request to create is made and
  the exit status is 1.
\<close>

theorem fresh_ticket_without_candidate:
  assumes "\<not> debug a"
    and "fst (search_existing_issue cfg w (objectName a) (projectKey a)) = None"
  shows "linked (snd (main cfg w a)) = []
         \<and> (case resolved_ids w (projectKey a) (mapped_issue_type cfg a) (mapped_priority cfg a) of
               Some (tid, pid) \<Rightarrow>
                 (let body = issue_payload (projectKey a) tid (summary a) (description a) pid (assignee a)
                               (prepare_custom_fields cfg (objectName a))
                  in created (snd (main cfg w a)) = [body]
                     \<and> (''summary'' \<notin> fst ` set (prepare_custom_fields cfg (objectName a)) \<longrightarrow>
                          map_of (payload_fields body) ''summary'' = Some (JStr (summary a)))
                     \<and> (''description'' \<notin> fst ` set (prepare_custom_fields cfg (objectName a)) \<longrightarrow>
                          map_of (payload_fields body) ''description''
                            = Some (JObj [(''type'', JStr ''doc''), (''version'', JNum 1),
                                 (''content'', JArr [JObj [(''type'', JStr ''paragraph''),
                                    (''content'', JArr [JObj [(''type'', JStr ''text''),
                                       (''text'', JStr (description a))]])]])]))
                     \<and> fst (main cfg w a) = (case issue_post w body of Inr new_key \<Rightarrow> 0 | Inl e \<Rightarrow> 1))
             | None \<Rightarrow> created (snd (main cfg w a)) = [] \<and> fst (main cfg w a) = 1)"
  using assms
  by (auto simp: main_exit main_created main_linked create_issue_result create_issue_created Let_def
        payload_standard_fields adf_doc_def
      split: option.splits sum.splits)

theorem fresh_ticket_without_candidate_witness:
  "\<not> debug (args_demo\<lparr>objectName := ''job_a''\<rparr>)
   \<and> fst (search_existing_issue cfg_demo world_demo ''job_a'' ''PROJ'') = None
   \<and> ''summary'' \<notin> fst ` set (prepare_custom_fields cfg_demo ''job_a'')
   \<and> ''description'' \<notin> fst ` set (prepare_custom_fields cfg_demo ''job_a'')
   \<and> linked (snd (main cfg_demo world_demo (args_demo\<lparr>objectName := ''job_a''\<rparr>))) = []
   \<and> length (created (snd (main cfg_demo world_demo (args_demo\<lparr>objectName := ''job_a''\<rparr>)))) = 1
   \<and> map_of (payload_fields (hd (created (snd (main cfg_demo world_demo (args_demo\<lparr>objectName := ''job_a''\<rparr>))))))
        ''summary'' = Some (JStr ''Job failed'')
   \<and> map_of (payload_fields (hd (created (snd (main cfg_demo world_demo (args_demo\<lparr>objectName := ''job_a''\<rparr>))))))
        ''description''
       = Some (JObj [(''type'', JStr ''doc''), (''version'', JNum 1),
            (''content'', JArr [JObj [(''type'', JStr ''paragraph''),
               (''content'', JArr [JObj [(''type'', JStr ''text''), (''text'', JStr ''Exit code 2'')]])]])])
   \<and> fst (main cfg_demo world_demo (args_demo\<lparr>objectName := ''job_a''\<rparr>)) = 0"
proof -
  let ?a = "args_demo\<lparr>objectName := ''job_a''\<rparr>"
  have not_debug: "\<not> debug ?a"
    by (simp add: args_demo_def)
  have a: "projectKey ?a = ''PROJ''" "objectName ?a = ''job_a''"
     "summary ?a = ''Job failed''" "description ?a = ''Exit code 2''" "assignee ?a = None"
    by (simp_all add: args_demo_def)
  have no_match: "fst (search_existing_issue cfg_demo world_demo (objectName ?a) (projectKey ?a)) = None"
    by code_simp
  have ids: "resolved_ids world_demo (projectKey ?a) (mapped_issue_type cfg_demo ?a)
               (mapped_priority cfg_demo ?a) = Some (''10101'', ''1'')"
    by code_simp
  have free: "''summary'' \<notin> fst ` set (prepare_custom_fields cfg_demo ''job_a'')"
     "''description'' \<notin> fst ` set (prepare_custom_fields cfg_demo ''job_a'')"
    by code_simp+
  have post: "issue_post world_demo b = Inr ''PROJ-45''" for b
    by (simp add: world_demo_def)
  from fresh_ticket_without_candidate [OF not_debug no_match]
  show ?thesis
    using not_debug no_match ids free
    by (simp add: a post Let_def)
qed

text \<open>
  C2 as stated fails in two ways. With no candidate and an issue type that neither list
  knows, no issue is created. With a configuration that stores the request type under
  \<^verbatim>\<open>summary\<close> and the job name under \<^verbatim>\<open>description\<close>, the one request has the
  summary \<^verbatim>\<open>14\<close> and the description \<^verbatim>\<open>job_a\<close> instead of the alarm's own.
\<close>

theorem fresh_ticket_unresolved_type_counterexample:
  "\<not> debug (args_demo\<lparr>objectName := ''job_a'', issueType := Some ''Problem'', alarmType := None\<rparr>)
   \<and> fst (search_existing_issue cfg_demo world_demo ''job_a'' ''PROJ'') = None
   \<and> created (snd (main cfg_demo world_demo
        (args_demo\<lparr>objectName := ''job_a'', issueType := Some ''Problem'', alarmType := None\<rparr>))) = []
   \<and> fst (main cfg_demo world_demo
        (args_demo\<lparr>objectName := ''job_a'', issueType := Some ''Problem'', alarmType := None\<rparr>)) = 1
   \<and> \<not> debug (args_demo\<lparr>objectName := ''job_a''\<rparr>)
   \<and> fst (search_existing_issue cfg_shadow world_demo ''job_a'' ''PROJ'') = None
   \<and> fst (main cfg_shadow world_demo (args_demo\<lparr>objectName := ''job_a''\<rparr>)) = 0
   \<and> length (created (snd (main cfg_shadow world_demo (args_demo\<lparr>objectName := ''job_a''\<rparr>)))) = 1
   \<and> map_of (payload_fields (hd (created (snd (main cfg_shadow world_demo (args_demo\<lparr>objectName := ''job_a''\<rparr>))))))
        ''summary'' = Some (JStr ''14'')
   \<and> map_of (payload_fields (hd (created (snd (main cfg_shadow world_demo (args_demo\<lparr>objectName := ''job_a''\<rparr>))))))
        ''description'' = Some (JStr ''job_a'')"
  by code_simp

text \<open>Only the search reads the search answer of the remote state.\<close>

lemma get_issue_type_id_search_post [simp]:
  "get_issue_type_id (w\<lparr>search_post := f\<rparr>) = get_issue_type_id w"
  by (simp add: get_issue_type_id_def fun_eq_iff split: sum.splits option.splits)

lemma get_priority_id_search_post [simp]:
  "get_priority_id (w\<lparr>search_post := f\<rparr>) = get_priority_id w"
  by (simp add: get_priority_id_def fun_eq_iff split: sum.splits option.splits)

lemma create_issue_search_post [simp]:
  "create_issue (w\<lparr>search_post := f\<rparr>) = create_issue w"
  by (simp add: create_issue_def fun_eq_iff split_beta Let_def split: sum.splits option.splits)

lemma post_process_search_post [simp]:
  "post_process (w\<lparr>search_post := f\<rparr>) = post_process w"
  by (simp add: post_process_def attach_if_provided_def add_attachment_def add_comment_def fun_eq_iff
        split_beta Let_def split: sum.splits option.splits)

lemma resolved_ids_search_post [simp]:
  "resolved_ids (w\<lparr>search_post := f\<rparr>) = resolved_ids w"
  by (simp add: resolved_ids_def fun_eq_iff split: option.splits)

text \<open>The requests of a run without existing issue, apart from the search itself.\<close>

lemma main_calls_no_candidate:
  assumes "\<not> debug a"
    and "fst (search_existing_issue cfg w (objectName a) (projectKey a)) = None"
  shows "calls_of (snd (main cfg w a)) =
           calls_of (snd (search_existing_issue cfg w (objectName a) (projectKey a)))
           @ (let r = create_issue w (projectKey a) (mapped_issue_type cfg a) (summary a) (description a)
                        (mapped_priority cfg a) (assignee a) (prepare_custom_fields cfg (objectName a))
              in calls_of (snd r) @ (case fst r of None \<Rightarrow> [] | Some k \<Rightarrow> calls_of (post_process w a k)))"
  using assms
  by (simp add: main_def split_beta Let_def split: option.splits)

lemma search_calls:
  "calls_of (snd (search_existing_issue cfg w obj pk)) =
     (case object_field_id cfg of None \<Rightarrow> [] | Some fid \<Rightarrow> [PostSearch (search_body fid pk)])"
  by (simp add: search_existing_issue_def object_field_id_def Let_def split: option.splits sum.splits)

text \<open>
  C9, as amended: in a run that processes an alarm, when the object-name field is not
  configured or the search request fails, the search returns no issue, and the run has
  the exit status and the requests of the same run against a remote whose search answers
  an empty page: no link request, and, when the issue type and the priority both
  resolve, exactly one request to create an issue, whose summary is the alarm's own
  summary unless a custom field stored with the request has the id \<^verbatim>\<open>summary\<close>, and
  whose description is the document with the alarm's own description as text unless one
  has the id \<^verbatim>\<open>description\<close> (no such request and exit status 1 when a name does not
  resolve).
\<close>

theorem search_failure_like_zero_match:
  assumes "\<not> debug a"
    and "object_field_id cfg = None
         \<or> (\<exists>fid e. object_field_id cfg = Some fid \<and> search_post w (search_body fid (projectKey a)) = Inl e)"
  shows "fst (search_existing_issue cfg w (objectName a) (projectKey a)) = None
         \<and> fst (main cfg w a) = fst (main cfg (w\<lparr>search_post := \<lambda>b. Inr []\<rparr>) a)
         \<and> calls_of (snd (main cfg w a)) = calls_of (snd (main cfg (w\<lparr>search_post := \<lambda>b. Inr []\<rparr>) a))
         \<and> linked (snd (main cfg w a)) = []
         \<and> (case resolved_ids w (projectKey a) (mapped_issue_type cfg a) (mapped_priority cfg a) of
               Some (tid, pid) \<Rightarrow>
                 (let body = issue_payload (projectKey a) tid (summary a) (description a) pid (assignee a)
                               (prepare_custom_fields cfg (objectName a))
                  in created (snd (main cfg w a)) = [body]
                     \<and> (''summary'' \<notin> fst ` set (prepare_custom_fields cfg (objectName a)) \<longrightarrow>
                          map_of (payload_fields body) ''summary'' = Some (JStr (summary a)))
                     \<and> (''description'' \<notin> fst ` set (prepare_custom_fields cfg (objectName a)) \<longrightarrow>
                          map_of (payload_fields body) ''description''
                            = Some (JObj [(''type'', JStr ''doc''), (''version'', JNum 1),
                                 (''content'', JArr [JObj [(''type'', JStr ''paragraph''),
                                    (''content'', JArr [JObj [(''type'', JStr ''text''),
                                       (''text'', JStr (description a))]])]])])))
             | None \<Rightarrow> created (snd (main cfg w a)) = [] \<and> fst (main cfg w a) = 1)"
proof -
  let ?w' = "w\<lparr>search_post := \<lambda>b. Inr []\<rparr>"
  have none: "fst (search_existing_issue cfg w (objectName a) (projectKey a)) = None"
    using assms(2) by (auto simp: search_existing_issue_result)
  have none': "fst (search_existing_issue cfg ?w' (objectName a) (projectKey a)) = None"
    by (simp add: search_existing_issue_result split: option.splits)
  have exit: "fst (main cfg w a) = fst (main cfg ?w' a)"
    using assms(1) none none' by (simp add: main_exit)
  have calls: "calls_of (snd (main cfg w a)) = calls_of (snd (main cfg ?w' a))"
    using assms(1) none none' by (simp add: main_calls_no_candidate search_calls Let_def split: option.splits)
  have rest: "linked (snd (main cfg w a)) = []
         \<and> (case resolved_ids w (projectKey a) (mapped_issue_type cfg a) (mapped_priority cfg a) of
               Some (tid, pid) \<Rightarrow>
                 (let body = issue_payload (projectKey a) tid (summary a) (description a) pid (assignee a)
                               (prepare_custom_fields cfg (objectName a))
                  in created (snd (main cfg w a)) = [body]
                     \<and> (''summary'' \<notin> fst ` set (prepare_custom_fields cfg (objectName a)) \<longrightarrow>
                          map_of (payload_fields body) ''summary'' = Some (JStr (summary a)))
                     \<and> (''description'' \<notin> fst ` set (prepare_custom_fields cfg (objectName a)) \<longrightarrow>
                          map_of (payload_fields body) ''description''
                            = Some (JObj [(''type'', JStr ''doc''), (''version'', JNum 1),
                                 (''content'', JArr [JObj [(''type'', JStr ''paragraph''),
                                    (''content'', JArr [JObj [(''type'', JStr ''text''),
                                       (''text'', JStr (description a))]])]])])))
             | None \<Rightarrow> created (snd (main cfg w a)) = [] \<and> fst (main cfg w a) = 1)"
    using assms(1) none
    by (auto simp: main_exit main_created main_linked create_issue_result create_issue_created Let_def
          payload_standard_fields adf_doc_def
        split: option.splits)
  from none exit calls rest show ?thesis by blast
qed

theorem search_failure_like_zero_match_witness:
  "\<not> debug args_demo
   \<and> object_field_id cfg_demo = Some ''customfield_10055''
   \<and> search_post world_search_down
        (search_body ''customfield_10055'' ''PROJ'') = Inl (RequestException ''503 Server Error'' None)
   \<and> fst (search_existing_issue cfg_demo
        world_search_down
        ''ETL_NIGHTLY'' ''PROJ'') = None
   \<and> linked (snd (main cfg_demo
        world_search_down args_demo)) = []
   \<and> ''summary'' \<notin> fst ` set (prepare_custom_fields cfg_demo ''ETL_NIGHTLY'')
   \<and> ''description'' \<notin> fst ` set (prepare_custom_fields cfg_demo ''ETL_NIGHTLY'')
   \<and> length (created (snd (main cfg_demo world_search_down args_demo))) = 1
   \<and> map_of (payload_fields (hd (created (snd (main cfg_demo world_search_down args_demo))))) ''summary''
       = Some (JStr ''Job failed'')
   \<and> map_of (payload_fields (hd (created (snd (main cfg_demo world_search_down args_demo))))) ''description''
       = Some (JObj [(''type'', JStr ''doc''), (''version'', JNum 1),
            (''content'', JArr [JObj [(''type'', JStr ''paragraph''),
               (''content'', JArr [JObj [(''type'', JStr ''text''), (''text'', JStr ''Exit code 2'')]])]])])
   \<and> fst (main cfg_demo
        world_search_down args_demo)
       = fst (main cfg_demo (world_search_down\<lparr>search_post := \<lambda>b. Inr []\<rparr>) args_demo)
   \<and> object_field_id cfg_no_object_field = None
   \<and> linked (snd (main cfg_no_object_field
        world_demo args_demo)) = []"
proof -
  let ?w = world_search_down
  let ?cfg = cfg_no_object_field
  have not_debug: "\<not> debug args_demo"
    by (simp add: args_demo_def)
  have a: "projectKey args_demo = ''PROJ''" "objectName args_demo = ''ETL_NIGHTLY''"
     "summary args_demo = ''Job failed''" "description args_demo = ''Exit code 2''" "assignee args_demo = None"
    by (simp_all add: args_demo_def)
  have field: "object_field_id cfg_demo = Some ''customfield_10055''"
    by code_simp
  have fails: "search_post ?w (search_body ''customfield_10055'' (projectKey args_demo))
                 = Inl (RequestException ''503 Server Error'' None)"
    by (simp add: world_search_down_def)
  have failing: "object_field_id cfg_demo = None
         \<or> (\<exists>fid e. object_field_id cfg_demo = Some fid
                \<and> search_post ?w (search_body fid (projectKey args_demo)) = Inl e)"
    using field fails by blast
  have absent: "object_field_id ?cfg = None"
    by code_simp
  have ids: "resolved_ids ?w (projectKey args_demo) (mapped_issue_type cfg_demo args_demo)
               (mapped_priority cfg_demo args_demo) = Some (''10101'', ''1'')"
    by code_simp
  have free: "''summary'' \<notin> fst ` set (prepare_custom_fields cfg_demo ''ETL_NIGHTLY'')"
     "''description'' \<notin> fst ` set (prepare_custom_fields cfg_demo ''ETL_NIGHTLY'')"
    by code_simp+
  from search_failure_like_zero_match [OF not_debug failing]
       search_failure_like_zero_match [of args_demo ?cfg world_demo, OF not_debug]
  show ?thesis
    using not_debug field fails absent ids free
    by (simp add: a Let_def)
qed

text \<open>
  C9 as stated fails in two ways. With a failing search and a priority list that does
  not know the priority, no issue is created. With a failing search and a configuration
  that stores the request type under \<^verbatim>\<open>summary\<close> and the job name under
  \<^verbatim>\<open>description\<close>, the one request has the summary \<^verbatim>\<open>14\<close> and the description
  \<^verbatim>\<open>ETL_NIGHTLY\<close> instead of the alarm's own.
\<close>

theorem search_failure_unresolved_priority_counterexample:
  "\<not> debug args_demo
   \<and> fst (search_existing_issue cfg_demo
        world_search_down_no_priority
        (objectName args_demo) (projectKey args_demo)) = None
   \<and> created (snd (main cfg_demo
        world_search_down_no_priority
        args_demo)) = []
   \<and> fst (main cfg_demo
        world_search_down_no_priority
        args_demo) = 1
   \<and> fst (search_existing_issue cfg_shadow world_search_down
        (objectName args_demo) (projectKey args_demo)) = None
   \<and> fst (main cfg_shadow world_search_down args_demo) = 0
   \<and> length (created (snd (main cfg_shadow world_search_down args_demo))) = 1
   \<and> map_of (payload_fields (hd (created (snd (main cfg_shadow world_search_down args_demo))))) ''summary''
       = Some (JStr ''14'')
   \<and> map_of (payload_fields (hd (created (snd (main cfg_shadow world_search_down args_demo))))) ''description''
       = Some (JStr ''ETL_NIGHTLY'')"
  by code_simp

section \<open>Attachments\<close>

lemma main_opened_files:
  "\<not> debug a \<Longrightarrow>
   opened_files (snd (main cfg w a)) =
     (if fst (main cfg w a) = 0
      then map fst (attachable w (outAttachmentFile a) (outAttachmentName a)
                    @ attachable w (errorAttachmentFile a) (errorAttachmentName a))
      else [])"
  by (simp add: main_def split_beta Let_def post_process_effects split: option.splits)

lemma main_uploads:
  "\<not> debug a \<Longrightarrow>
   uploads (snd (main cfg w a)) =
     (if fst (main cfg w a) = 0
      then filter (\<lambda>(p, m). file_open w p = None)
             (attachable w (outAttachmentFile a) (outAttachmentName a)
              @ attachable w (errorAttachmentFile a) (errorAttachmentName a))
      else [])"
  by (simp add: main_def split_beta Let_def post_process_effects split: option.splits)

text \<open>Neither the search nor the creation reads the file system or the upload answers.\<close>

lemma search_existing_issue_files [simp]:
  "search_existing_issue cfg (w\<lparr>path_exists := pe, file_open := fo, attachment_post := ap\<rparr>)
     = search_existing_issue cfg w"
  by (simp add: search_existing_issue_def fun_eq_iff Let_def split: sum.splits option.splits)

lemma create_issue_files [simp]:
  "create_issue (w\<lparr>path_exists := pe, file_open := fo, attachment_post := ap\<rparr>) = create_issue w"
  by (simp add: create_issue_def get_issue_type_id_def get_priority_id_def fun_eq_iff split_beta Let_def
      split: sum.splits option.splits)

text \<open>
  C7, as amended: a file is opened for upload exactly when the run is not in debug mode,
  its ticket was created (exit status 0) and, for that attachment, both the path and the
  name are given and not empty and the path exists; the upload request is sent exactly
  when, in addition, the file can be opened. For a path that does not exist
  \<^verbatim>\<open>add_attachment\<close> prints a warning and returns \<open>False\<close>, and the exit status of
  the run does not depend on the file system or on the answers to the uploads.
\<close>

theorem attachments_after_creation:
  "opened_files (snd (main cfg w a)) =
     (if \<not> debug a \<and> fst (main cfg w a) = 0
      then map fst (attachable w (outAttachmentFile a) (outAttachmentName a)
                    @ attachable w (errorAttachmentFile a) (errorAttachmentName a))
      else [])
   \<and> uploads (snd (main cfg w a)) =
     (if \<not> debug a \<and> fst (main cfg w a) = 0
      then filter (\<lambda>(p, m). file_open w p = None)
             (attachable w (outAttachmentFile a) (outAttachmentName a)
              @ attachable w (errorAttachmentFile a) (errorAttachmentName a))
      else [])
   \<and> (\<not> path_exists w p \<longrightarrow>
        add_attachment w k p n = (False, [Print (''Warning: Attachment file '' @ p @ '' does not exist'')]))
   \<and> fst (main cfg (w\<lparr>path_exists := pe, file_open := fo, attachment_post := ap\<rparr>) a) = fst (main cfg w a)"
proof -
  have warn: "\<not> path_exists w p \<longrightarrow>
              add_attachment w k p n = (False, [Print (''Warning: Attachment file '' @ p @ '' does not exist'')])"
    by (simp add: add_attachment_def)
  show ?thesis
  proof (cases "debug a")
    case True
    with warn show ?thesis
      by (simp add: main_debug)
  next
    case False
    then have "fst (main cfg (w\<lparr>path_exists := pe, file_open := fo, attachment_post := ap\<rparr>) a)
                 = fst (main cfg w a)"
      by (simp add: main_exit split: option.splits)
    with False warn show ?thesis
      by (simp add: main_opened_files main_uploads)
  qed
qed

theorem attachments_after_creation_witness:
  "\<not> debug args_demo
   \<and> fst (main cfg_demo world_demo args_demo) = 0
   \<and> opened_files (snd (main cfg_demo world_demo args_demo)) = [''/tmp/out.log'']
   \<and> uploads (snd (main cfg_demo world_demo args_demo)) = [(''/tmp/out.log'', ''out.log'')]
   \<and> \<not> path_exists world_demo ''/tmp/missing.log''
   \<and> add_attachment world_demo ''PROJ-45'' ''/tmp/missing.log'' ''err.log''
       = (False, [Print ''Warning: Attachment file /tmp/missing.log does not exist''])"
proof -
  have not_debug: "\<not> debug args_demo"
    by (simp add: args_demo_def)
  have exit: "fst (main cfg_demo world_demo args_demo) = 0"
    by code_simp
  have missing: "\<not> path_exists world_demo ''/tmp/missing.log''"
    by (simp add: world_demo_def)
  have files: "attachable world_demo (outAttachmentFile args_demo) (outAttachmentName args_demo)
                 @ attachable world_demo (errorAttachmentFile args_demo) (errorAttachmentName args_demo)
               = [(''/tmp/out.log'', ''out.log'')]"
    by code_simp
  have opens: "file_open world_demo q = None" for q
    by (simp add: world_demo_def)
  from attachments_after_creation [of cfg_demo world_demo args_demo "''/tmp/missing.log''" "''PROJ-45''" "''err.log''"]
  show ?thesis
    using not_debug exit missing
    by (simp add: files opens)
qed

text \<open>
  C7 as stated, an equivalence, fails in two ways: a run that ends before the ticket is
  created attempts no upload although name and path are given and the path exists, and
  so does a run whose attachment name is given as the empty string.
\<close>

theorem attachments_aborted_run_counterexample:
  "outAttachmentName args_demo = Some ''out.log''
   \<and> outAttachmentFile args_demo = Some ''/tmp/out.log''
   \<and> path_exists world_no_priority ''/tmp/out.log''
   \<and> \<not> debug args_demo
   \<and> opened_files (snd (main cfg_demo world_no_priority args_demo)) = []
   \<and> uploads (snd (main cfg_demo world_no_priority args_demo)) = []
   \<and> fst (main cfg_demo world_no_priority args_demo) = 1
   \<and> outAttachmentName (args_demo\<lparr>outAttachmentName := Some []\<rparr>) = Some []
   \<and> outAttachmentFile (args_demo\<lparr>outAttachmentName := Some []\<rparr>) = Some ''/tmp/out.log''
   \<and> path_exists world_demo ''/tmp/out.log''
   \<and> opened_files (snd (main cfg_demo world_demo (args_demo\<lparr>outAttachmentName := Some []\<rparr>))) = []
   \<and> uploads (snd (main cfg_demo world_demo (args_demo\<lparr>outAttachmentName := Some []\<rparr>))) = []
   \<and> fst (main cfg_demo world_demo (args_demo\<lparr>outAttachmentName := Some []\<rparr>)) = 0"
  by code_simp

section \<open>The custom fields of a created ticket\<close>

text \<open>A property of the dict that every store of a loop preserves holds after the loop.\<close>

lemma fold_invariant:
  assumes "P s" and "\<And>x t. x \<in> set xs \<Longrightarrow> P t \<Longrightarrow> P (f x t)"
  shows "P (fold f xs s)"
  using assms by (induction xs arbitrary: s) auto

lemma dict_update_lookup:
  "distinct (map fst e) \<Longrightarrow> map_of e k = Some v \<Longrightarrow> map_of (dict_update d e) k = Some v"
proof (induction e arbitrary: d)
  case Nil
  then show ?case by simp
next
  case (Cons x e)
  obtain k' v' where x: "x = (k', v')" by (cases x)
  show ?case
  proof (cases "k = k'")
    case True
    with Cons.prems x have "v = v'" and "k \<notin> fst ` set e" by auto
    then have "map_of (dict_update (AList.update k' v' d) e) k = Some v"
      using True by (simp add: dict_update_other update_conv')
    then show ?thesis by (simp add: dict_update_def x)
  next
    case False
    with Cons.prems x have "distinct (map fst e)" and "map_of e k = Some v" by auto
    then have "map_of (dict_update (AList.update k' v' d) e) k = Some v"
      by (rule Cons.IH)
    then show ?thesis by (simp add: dict_update_def x)
  qed
qed

lemma payload_custom_field:
  assumes "distinct (map fst cf)" and "map_of cf k = Some v"
  shows "map_of (payload_fields (issue_payload pk tid s d pid asg cf)) k = Some v"
proof -
  from assms(2) have "cf \<noteq> []" by auto
  then show ?thesis
    using assms by (simp add: payload_fields_issue_payload Let_def dict_update_lookup)
qed

lemma prepare_custom_fields_distinct:
  "distinct (map fst (prepare_custom_fields cfg obj))"
proof -
  let ?m = "custom_field_mappings cfg"
  let ?P = "\<lambda>t :: (string \<times> json) list. distinct (map fst t)"
  let ?f2 = "\<lambda>(field_name, field_id) cf.
               case map_of (jsm_default_values cfg) field_name of
                 None \<Rightarrow> cf
               | Some default_value \<Rightarrow>
                   if truthy default_value then AList.update field_id default_value cf else cf"
  let ?f3 = "\<lambda>(field_name, field_id) cf.
               if field_name = ''vtom_job_name'' then AList.update field_id (JStr obj) cf else cf"
  have d2: "?P (fold ?f2 ?m t)" if "?P t" for t
  proof (rule fold_invariant [where P = ?P, OF that])
    fix x and u :: "(string \<times> json) list"
    assume "?P u"
    then show "?P (?f2 x u)"
      by (cases x) (simp add: distinct_update split: option.splits)
  qed
  have d3: "?P (fold ?f3 ?m t)" if "?P t" for t
  proof (rule fold_invariant [where P = ?P, OF that])
    fix x and u :: "(string \<times> json) list"
    assume "?P u"
    then show "?P (?f3 x u)"
      by (cases x) (simp add: distinct_update)
  qed
  have d1: "?P (case nonempty (map_of ?m ''vtom_object_name'') of
                  None \<Rightarrow> [] | Some vtom_field_id \<Rightarrow> AList.update vtom_field_id (JStr obj) [])"
    by (simp split: option.splits)
  show ?thesis
    unfolding prepare_custom_fields_def Let_def
    using d1 d3 [OF d1] d3 [OF d2 [OF d1]] by simp
qed

lemma prepare_custom_fields_object_name:
  assumes "object_field_id cfg = Some fid"
    and "\<forall>(field_name, field_id) \<in> set (custom_field_mappings cfg).
           field_id = fid \<longrightarrow>
             (case map_of (jsm_default_values cfg) field_name of None \<Rightarrow> True | Some dv \<Rightarrow> \<not> truthy dv)"
  shows "map_of (prepare_custom_fields cfg obj) fid = Some (JStr obj)"
proof -
  let ?m = "custom_field_mappings cfg"
  let ?P = "\<lambda>t. map_of t fid = Some (JStr obj)"
  let ?f2 = "\<lambda>(field_name, field_id) cf.
               case map_of (jsm_default_values cfg) field_name of
                 None \<Rightarrow> cf
               | Some default_value \<Rightarrow>
                   if truthy default_value then AList.update field_id default_value cf else cf"
  let ?f3 = "\<lambda>(field_name, field_id) cf.
               if field_name = ''vtom_job_name'' then AList.update field_id (JStr obj) cf else cf"
  let ?cf1 = "AList.update fid (JStr obj) []"
  from assms(1) have nonempty: "?m \<noteq> []" and id: "nonempty (map_of ?m ''vtom_object_name'') = Some fid"
    by (auto simp: object_field_id_def)
  have p1: "?P ?cf1" by (simp add: update_conv')
  have p2: "?P (fold ?f2 ?m ?cf1)"
  proof (rule fold_invariant [where P = ?P, OF p1])
    fix x t assume x: "x \<in> set ?m" and t: "?P t"
    obtain fname fid' where eq: "x = (fname, fid')" by (cases x)
    show "?P (?f2 x t)"
    proof (cases "fid' = fid")
      case True
      with assms(2) x eq
      have "case map_of (jsm_default_values cfg) fname of None \<Rightarrow> True | Some dv \<Rightarrow> \<not> truthy dv"
        by auto
      then show ?thesis using t by (simp add: eq split: option.splits)
    next
      case False
      then show ?thesis using t by (simp add: eq update_conv' split: option.splits)
    qed
  qed
  have p3: "?P (fold ?f3 ?m t)" if "?P t" for t
  proof (rule fold_invariant [where P = ?P, OF that])
    fix x u assume "?P u"
    then show "?P (?f3 x u)" by (cases x) (simp add: update_conv')
  qed
  show ?thesis
    unfolding prepare_custom_fields_def Let_def
    using nonempty id p1 p2 p3 [OF p1] p3 [OF p2] by simp
qed

text \<open>
  The custom fields are stored over the standard ones, under ids taken from the
  configuration: unless a configured field id is \<^verbatim>\<open>summary\<close> or \<^verbatim>\<open>description\<close>,
  the request carries the summary and the description \<^verbatim>\<open>create_issue\<close> was given.
\<close>

lemma prepare_custom_fields_keys:
  "fst ` set (prepare_custom_fields cfg obj) \<subseteq> snd ` set (custom_field_mappings cfg)"
proof -
  let ?m = "custom_field_mappings cfg"
  let ?P = "\<lambda>t :: (string \<times> json) list. fst ` set t \<subseteq> snd ` set ?m"
  let ?f2 = "\<lambda>(field_name, field_id) cf.
               case map_of (jsm_default_values cfg) field_name of
                 None \<Rightarrow> cf
               | Some default_value \<Rightarrow>
                   if truthy default_value then AList.update field_id default_value cf else cf"
  let ?f3 = "\<lambda>(field_name, field_id) cf.
               if field_name = ''vtom_job_name'' then AList.update field_id (JStr obj) cf else cf"
  have k2: "?P (fold ?f2 ?m t)" if "?P t" for t
  proof (rule fold_invariant [where P = ?P, OF that])
    fix x and u :: "(string \<times> json) list"
    assume "x \<in> set ?m" and u: "?P u"
    then have "snd x \<in> snd ` set ?m" by simp
    with u show "?P (?f2 x u)"
      by (cases x) (simp add: dom_update split: option.splits)
  qed
  have k3: "?P (fold ?f3 ?m t)" if "?P t" for t
  proof (rule fold_invariant [where P = ?P, OF that])
    fix x and u :: "(string \<times> json) list"
    assume "x \<in> set ?m" and u: "?P u"
    then have "snd x \<in> snd ` set ?m" by simp
    with u show "?P (?f3 x u)"
      by (cases x) (simp add: dom_update)
  qed
  have k1: "?P (case nonempty (map_of ?m ''vtom_object_name'') of
                  None \<Rightarrow> [] | Some vtom_field_id \<Rightarrow> AList.update vtom_field_id (JStr obj) [])"
  proof (cases "map_of ?m ''vtom_object_name''")
    case None
    then show ?thesis by simp
  next
    case (Some fid)
    then have "(''vtom_object_name'', fid) \<in> set ?m" by (rule map_of_SomeD)
    then have "fid \<in> snd ` set ?m" by force
    with Some show ?thesis by simp
  qed
  show ?thesis
    unfolding prepare_custom_fields_def Let_def
    using k1 k3 [OF k1] k3 [OF k2 [OF k1]] by simp
qed

lemma payload_summary_description:
  assumes "''summary'' \<notin> snd ` set (custom_field_mappings cfg)"
    and "''description'' \<notin> snd ` set (custom_field_mappings cfg)"
  shows "map_of (payload_fields (issue_payload pk tid s d pid asg (prepare_custom_fields cfg obj))) ''summary''
           = Some (JStr s)"
    and "map_of (payload_fields (issue_payload pk tid s d pid asg (prepare_custom_fields cfg obj))) ''description''
           = Some (adf_doc d)"
proof -
  from assms prepare_custom_fields_keys [of cfg obj]
  have free: "''summary'' \<notin> fst ` set (prepare_custom_fields cfg obj)"
    "''description'' \<notin> fst ` set (prepare_custom_fields cfg obj)"
    by blast+
  from free(1)
  show "map_of (payload_fields (issue_payload pk tid s d pid asg (prepare_custom_fields cfg obj))) ''summary''
           = Some (JStr s)"
    by (rule payload_standard_fields)
  from free(2)
  show "map_of (payload_fields (issue_payload pk tid s d pid asg (prepare_custom_fields cfg obj))) ''description''
           = Some (adf_doc d)"
    by (rule payload_standard_fields)
qed

lemma main_created_cases:
  assumes "\<not> debug a"
  shows "created (snd (main cfg w a)) = []
         \<or> (\<exists>tid s d pid. created (snd (main cfg w a)) =
               [issue_payload (projectKey a) tid s d pid (assignee a) (prepare_custom_fields cfg (objectName a))])"
  using assms
  by (auto simp: main_created create_issue_created split: option.splits)

text \<open>
  C8, as amended: when the configuration maps \<^verbatim>\<open>vtom_object_name\<close> to a non-empty
  field id and no mapped field with that id has a true JSM default value, every request
  to create an issue (fresh or related) carries the alarm's object name under that
  field id.
\<close>

theorem object_name_field_on_created_tickets:
  assumes "object_field_id cfg = Some fid"
    and "\<forall>(field_name, field_id) \<in> set (custom_field_mappings cfg).
           field_id = fid \<longrightarrow>
             (case map_of (jsm_default_values cfg) field_name of None \<Rightarrow> True | Some dv \<Rightarrow> \<not> truthy dv)"
  shows "\<forall>body \<in> set (created (snd (main cfg w a))).
           map_of (payload_fields body) fid = Some (JStr (objectName a))"
proof -
  have "map_of (payload_fields (issue_payload pk tid s d pid asg (prepare_custom_fields cfg (objectName a)))) fid
          = Some (JStr (objectName a))" for pk tid s d pid asg
    using prepare_custom_fields_distinct prepare_custom_fields_object_name [OF assms]
    by (rule payload_custom_field)
  with main_created_cases [of a cfg w] show ?thesis
    by (cases "debug a") (auto simp: main_debug)
qed

theorem object_name_field_on_created_tickets_witness:
  "\<not> debug args_demo
   \<and> object_field_id cfg_demo = Some ''customfield_10055''
   \<and> map (\<lambda>body. map_of (payload_fields body) ''customfield_10055'') (created (snd (main cfg_demo world_demo args_demo)))
       = [Some (JStr ''ETL_NIGHTLY'')]"
proof -
  have not_debug: "\<not> debug args_demo"
    by (simp add: args_demo_def)
  have field: "object_field_id cfg_demo = Some ''customfield_10055''"
    by code_simp
  have free: "\<forall>(field_name, field_id) \<in> set (custom_field_mappings cfg_demo).
           field_id = ''customfield_10055'' \<longrightarrow>
             (case map_of (jsm_default_values cfg_demo) field_name of None \<Rightarrow> True | Some dv \<Rightarrow> \<not> truthy dv)"
    by code_simp
  have one: "length (created (snd (main cfg_demo world_demo args_demo))) = 1"
    by code_simp
  then obtain body where body: "created (snd (main cfg_demo world_demo args_demo)) = [body]"
    by (cases "created (snd (main cfg_demo world_demo args_demo))") auto
  from object_name_field_on_created_tickets [OF field free, of world_demo args_demo] body
  have "map_of (payload_fields body) ''customfield_10055'' = Some (JStr (objectName args_demo))"
    by simp
  with not_debug field body show ?thesis
    by (simp add: args_demo_def)
qed

text \<open>
  C8 as stated fails: with a configuration that does not map
  \<^verbatim>\<open>vtom_object_name\<close> the ticket is created, and its fields are the five standard ones
  and the request type; none holds the object name.
\<close>

theorem object_name_field_not_configured_counterexample:
  "\<not> debug args_demo
   \<and> fst (main cfg_no_object_field world_demo args_demo) = 0
   \<and> map (map fst \<circ> payload_fields) (created (snd (main cfg_no_object_field world_demo args_demo)))
       = [[''project'', ''issuetype'', ''summary'', ''description'', ''priority'', ''customfield_10010'']]"
  by code_simp

end
